theory Spec2Isabelle
  imports Complex_Main
begin

section \<open>Python values and the operations the chart module applies to them\<close>

text \<open>
  The chart module \<^verbatim>\<open>process/analytics_generator.py\<close> receives a loosely typed record
  (nested dictionaries and lists, as decoded from JSON) and returns a dictionary of SVG
  strings. A value of that record is a \<open>pyval\<close>. A dictionary is the list of its items in
  insertion order, looked up with \<open>map_of\<close>; its keys are strings. A Python float is
  modelled as a real number: rounding, infinities and NaN are outside the model, and the
  text Python prints for a float is taken as a parameter (\<open>pyfmt\<close>).
\<close>

datatype pyval =
    PNone
  | PBool bool
  | PInt int
  | PFloat real
  | PStr string
  | PList "pyval list"
  | PDict "(string \<times> pyval) list"

datatype error = KeyError | TypeError | AttributeError | ZeroDivisionError | ValueError

definition ebind :: "error + 'a \<Rightarrow> ('a \<Rightarrow> error + 'b) \<Rightarrow> error + 'b" where
  "ebind m f = (case m of Inl e \<Rightarrow> Inl e | Inr v \<Rightarrow> f v)"

text \<open>Truth value of an object, as \<^verbatim>\<open>not x\<close> tests it.\<close>

fun truthy :: "pyval \<Rightarrow> bool" where
  "truthy PNone = False"
| "truthy (PBool b) = b"
| "truthy (PInt i) = (i \<noteq> 0)"
| "truthy (PFloat r) = (r \<noteq> 0)"
| "truthy (PStr s) = (s \<noteq> [])"
| "truthy (PList xs) = (xs \<noteq> [])"
| "truthy (PDict kvs) = (kvs \<noteq> [])"

text \<open>\<^verbatim>\<open>d.get(key, default)\<close>: only a dictionary has the method.\<close>

fun py_get :: "pyval \<Rightarrow> string \<Rightarrow> pyval \<Rightarrow> error + pyval" where
  "py_get (PDict kvs) key dflt = Inr (case map_of kvs key of None \<Rightarrow> dflt | Some v \<Rightarrow> v)"
| "py_get _ key dflt = Inl AttributeError"

text \<open>\<^verbatim>\<open>d[key]\<close> with a string key.\<close>

fun py_getitem :: "pyval \<Rightarrow> string \<Rightarrow> error + pyval" where
  "py_getitem (PDict kvs) key = (case map_of kvs key of None \<Rightarrow> Inl KeyError | Some v \<Rightarrow> Inr v)"
| "py_getitem _ key = Inl TypeError"

fun is_substring :: "string \<Rightarrow> string \<Rightarrow> bool" where
  "is_substring k [] = (k = [])"
| "is_substring k (c # cs) = (take (length k) (c # cs) = k \<or> is_substring k cs)"

text \<open>\<^verbatim>\<open>key in x\<close> with a string key: membership in a dictionary's keys, in a list, or as a
  substring of a string; the other types are not containers.\<close>

fun py_in :: "string \<Rightarrow> pyval \<Rightarrow> error + bool" where
  "py_in key (PDict kvs) = Inr (map_of kvs key \<noteq> None)"
| "py_in key (PList xs) = Inr (PStr key \<in> set xs)"
| "py_in key (PStr s) = Inr (is_substring key s)"
| "py_in key _ = Inl TypeError"

text \<open>Iteration (\<^verbatim>\<open>for x in v\<close>, \<^verbatim>\<open>enumerate(v)\<close>) and \<^verbatim>\<open>len(v)\<close>.\<close>

fun py_iter :: "pyval \<Rightarrow> error + pyval list" where
  "py_iter (PList xs) = Inr xs"
| "py_iter (PStr s) = Inr (map (\<lambda>c. PStr [c]) s)"
| "py_iter (PDict kvs) = Inr (map (\<lambda>kv. PStr (fst kv)) kvs)"
| "py_iter _ = Inl TypeError"

text \<open>The number a value stands for in arithmetic; \<^verbatim>\<open>bool\<close> is a subclass of \<^verbatim>\<open>int\<close>.\<close>

fun num_val :: "pyval \<Rightarrow> real option" where
  "num_val (PBool b) = Some (if b then 1 else 0)"
| "num_val (PInt i) = Some (of_int i)"
| "num_val (PFloat r) = Some r"
| "num_val _ = None"

text \<open>True division \<^verbatim>\<open>a / b\<close>: a float, or ZeroDivisionError, or TypeError on a non-number.\<close>

definition py_truediv :: "pyval \<Rightarrow> pyval \<Rightarrow> error + real" where
  "py_truediv a b =
     (case (num_val a, num_val b) of
        (Some x, Some y) \<Rightarrow> if y = 0 then Inl ZeroDivisionError else Inr (x / y)
      | _ \<Rightarrow> Inl TypeError)"

text \<open>\<^verbatim>\<open>a * c\<close> where \<open>c\<close> is a float: a float for a number, TypeError for anything else
  (a sequence can only be repeated by an integer).\<close>

definition py_mul_float :: "pyval \<Rightarrow> real \<Rightarrow> error + real" where
  "py_mul_float a c = (case num_val a of Some x \<Rightarrow> Inr (x * c) | None \<Rightarrow> Inl TypeError)"

text \<open>\<^verbatim>\<open>a >= n\<close> against a number: TypeError when \<open>a\<close> is not a number.\<close>

definition py_ge :: "pyval \<Rightarrow> real \<Rightarrow> error + bool" where
  "py_ge a n = (case num_val a of Some x \<Rightarrow> Inr (x \<ge> n) | None \<Rightarrow> Inl TypeError)"

text \<open>\<^verbatim>\<open>a == 0\<close> never raises: a non-number is unequal to 0.\<close>

definition py_eq_zero :: "pyval \<Rightarrow> bool" where
  "py_eq_zero a = (num_val a = Some 0)"

text \<open>\<^verbatim>\<open>a == 'text'\<close> never raises.\<close>

definition py_eq_str :: "pyval \<Rightarrow> string \<Rightarrow> bool" where
  "py_eq_str a s = (a = PStr s)"

text \<open>\<^verbatim>\<open>sum(xs)\<close> starts from the integer 0 and adds from the left; the total is an
  integer while every summand is one, a float afterwards.\<close>

fun int_val :: "pyval \<Rightarrow> int option" where
  "int_val (PBool b) = Some (if b then 1 else 0)"
| "int_val (PInt i) = Some i"
| "int_val _ = None"

fun py_sum_from :: "pyval \<Rightarrow> pyval list \<Rightarrow> error + pyval" where
  "py_sum_from acc [] = Inr acc"
| "py_sum_from acc (x # xs) =
     (case (int_val acc, int_val x) of
        (Some a, Some b) \<Rightarrow> py_sum_from (PInt (a + b)) xs
      | _ \<Rightarrow>
        (case (num_val acc, num_val x) of
           (Some a, Some b) \<Rightarrow> py_sum_from (PFloat (a + b)) xs
         | _ \<Rightarrow> Inl TypeError))"

definition py_sum :: "pyval list \<Rightarrow> error + pyval" where
  "py_sum xs = py_sum_from (PInt 0) xs"

text \<open>\<^verbatim>\<open>max(xs)\<close> keeps the first largest item. On numbers it is their maximum. The model
  raises TypeError as soon as an item is not a number: Python raises it either in the
  comparison itself or, when all items are strings or all are lists, at the first use of
  the result, which in this module is always a multiplication by a float.\<close>

fun py_max_from :: "pyval \<Rightarrow> pyval list \<Rightarrow> error + pyval" where
  "py_max_from m [] = (case num_val m of Some a \<Rightarrow> Inr m | None \<Rightarrow> Inl TypeError)"
| "py_max_from m (x # xs) =
     (case (num_val m, num_val x) of
        (Some a, Some b) \<Rightarrow> py_max_from (if b > a then x else m) xs
      | _ \<Rightarrow> Inl TypeError)"

fun py_max :: "pyval list \<Rightarrow> error + pyval" where
  "py_max [] = Inl ValueError"
| "py_max (x # xs) = py_max_from x xs"

text \<open>\<^verbatim>\<open>int(x)\<close> of a float truncates toward zero.\<close>

definition py_int :: "real \<Rightarrow> int" where
  "py_int r = (if r \<ge> 0 then floor r else ceiling r)"

subsection \<open>Formatting\<close>

text \<open>The text of a float, under the three formats the module uses, is a parameter:
  \<open>float_str\<close> is \<^verbatim>\<open>str(x)\<close>, \<open>float_comma\<close> is \<^verbatim>\<open>format(x, ',')\<close> and \<open>float_fixed0\<close> is
  \<^verbatim>\<open>format(x, '.0f')\<close>. \<open>container_str\<close> is \<^verbatim>\<open>str\<close> of a list or dictionary.\<close>

record pyfmt =
  float_str :: "real \<Rightarrow> string"
  float_comma :: "real \<Rightarrow> string"
  float_fixed0 :: "real \<Rightarrow> string"
  container_str :: "pyval \<Rightarrow> string"

definition digit_char :: "nat \<Rightarrow> char" where
  "digit_char d = ''0123456789'' ! (d mod 10)"

fun nat_digits :: "nat \<Rightarrow> string" where
  "nat_digits n = (if n < 10 then [digit_char n] else nat_digits (n div 10) @ [digit_char (n mod 10)])"

declare nat_digits.simps [simp del]

definition str_int :: "int \<Rightarrow> string" where
  "str_int i = (if i < 0 then CHR ''-'' # nat_digits (nat (- i)) else nat_digits (nat i))"

fun nat_comma :: "nat \<Rightarrow> string" where
  "nat_comma n =
     (if n < 1000 then nat_digits n
      else nat_comma (n div 1000) @ '','' @
           [digit_char (n div 100 mod 10), digit_char (n div 10 mod 10), digit_char (n mod 10)])"

declare nat_comma.simps [simp del]

text \<open>\<^verbatim>\<open>format(i, ',')\<close> of an integer: decimal digits grouped in threes.\<close>

definition int_comma :: "int \<Rightarrow> string" where
  "int_comma i = (if i < 0 then CHR ''-'' # nat_comma (nat (- i)) else nat_comma (nat i))"

text \<open>\<^verbatim>\<open>f"{v}"\<close>.\<close>

fun py_str :: "pyfmt \<Rightarrow> pyval \<Rightarrow> string" where
  "py_str fm PNone = ''None''"
| "py_str fm (PBool b) = (if b then ''True'' else ''False'')"
| "py_str fm (PInt i) = str_int i"
| "py_str fm (PFloat r) = float_str fm r"
| "py_str fm (PStr s) = s"
| "py_str fm v = container_str fm v"

text \<open>\<^verbatim>\<open>f"{v:,}"\<close>: a string refuses the format with ValueError, the other non-numbers
  with TypeError.\<close>

fun py_format_comma :: "pyfmt \<Rightarrow> pyval \<Rightarrow> error + string" where
  "py_format_comma fm (PBool b) = Inr (int_comma (if b then 1 else 0))"
| "py_format_comma fm (PInt i) = Inr (int_comma i)"
| "py_format_comma fm (PFloat r) = Inr (float_comma fm r)"
| "py_format_comma fm (PStr s) = Inl ValueError"
| "py_format_comma fm _ = Inl TypeError"

text \<open>\<^verbatim>\<open>f"{v:.0f}"\<close>: an integer is converted to a float first.\<close>

fun py_format_fixed0 :: "pyfmt \<Rightarrow> pyval \<Rightarrow> error + string" where
  "py_format_fixed0 fm (PBool b) = Inr (float_fixed0 fm (if b then 1 else 0))"
| "py_format_fixed0 fm (PInt i) = Inr (float_fixed0 fm (of_int i))"
| "py_format_fixed0 fm (PFloat r) = Inr (float_fixed0 fm r)"
| "py_format_fixed0 fm (PStr s) = Inl ValueError"
| "py_format_fixed0 fm _ = Inl TypeError"

section \<open>Score classification\<close>

definition score_to_color :: "pyval \<Rightarrow> error + string" where
  "score_to_color score =
     ebind (py_ge score 90) (\<lambda>c90. if c90 then Inr ''#10B981'' else
     ebind (py_ge score 80) (\<lambda>c80. if c80 then Inr ''#34D399'' else
     ebind (py_ge score 70) (\<lambda>c70. if c70 then Inr ''#FBBF24'' else
     ebind (py_ge score 60) (\<lambda>c60. if c60 then Inr ''#F59E0B'' else
     Inr ''#EF4444''))))"

definition score_to_label :: "pyval \<Rightarrow> error + string" where
  "score_to_label score =
     ebind (py_ge score 90) (\<lambda>c90. if c90 then Inr ''Excellent'' else
     ebind (py_ge score 80) (\<lambda>c80. if c80 then Inr ''Very Good'' else
     ebind (py_ge score 70) (\<lambda>c70. if c70 then Inr ''Good'' else
     ebind (py_ge score 60) (\<lambda>c60. if c60 then Inr ''Fair'' else
     Inr ''Needs Attention''))))"

section \<open>Placeholder documents\<close>

definition default_radar_chart :: string where
  \<open>default_radar_chart =
     concat
       [''<svg width="400" height="300" xmlns="http://www.w3.org/2000/svg">\<newline>'',
        ''            <rect width="400" height="300" fill="#f7fafc" rx="8"/>\<newline>'',
        ''            <text x="200" y="150" text-anchor="middle" fill="#a0aec0" font-family="sans-serif">\<newline>'',
        ''                Rating data not available\<newline>'',
        ''            </text>\<newline>'',
        ''        </svg>'']\<close>

definition default_bar_chart :: string where
  \<open>default_bar_chart =
     concat
       [''<svg width="500" height="300" xmlns="http://www.w3.org/2000/svg">\<newline>'',
        ''            <rect width="500" height="300" fill="#f7fafc" rx="8"/>\<newline>'',
        ''            <text x="250" y="150" text-anchor="middle" fill="#a0aec0" font-family="sans-serif">\<newline>'',
        ''                Comparable sales data not available\<newline>'',
        ''            </text>\<newline>'',
        ''        </svg>'']\<close>

definition default_comparison_chart :: string where
  \<open>default_comparison_chart =
     concat
       [''<svg width="400" height="200" xmlns="http://www.w3.org/2000/svg">\<newline>'',
        ''            <rect width="400" height="200" fill="#f7fafc" rx="8"/>\<newline>'',
        ''            <text x="200" y="100" text-anchor="middle" fill="#a0aec0" font-family="sans-serif">\<newline>'',
        ''                Price comparison data not available\<newline>'',
        ''            </text>\<newline>'',
        ''        </svg>'']\<close>

section \<open>Radar chart\<close>

definition categories :: "string list" where
  "categories = [''Schools'', ''Safety'', ''Transport'', ''Amenities'', ''Investment'', ''Environment'']"

definition rating_map :: "(string \<times> nat) list" where
  "rating_map =
     [(''school_quality'', 0), (''safety'', 1), (''transportation'', 2),
      (''amenities'', 3), (''investment_potential'', 4), (''environment'', 5)]"

text \<open>The loop over \<^verbatim>\<open>rating_map.items()\<close>: a dictionary literal is iterated in the order
  it is written.\<close>

fun radar_scores :: "pyval \<Rightarrow> (string \<times> nat) list \<Rightarrow> error + pyval list" where
  "radar_scores ratings [] = Inr []"
| "radar_scores ratings ((key, idx) # rest) =
     ebind (py_in key ratings) (\<lambda>present.
     ebind (if present
            then ebind (py_getitem ratings key) (\<lambda>rating. py_get rating ''score'' (PInt 75))
            else Inr (PInt 75)) (\<lambda>score.
     ebind (radar_scores ratings rest) (\<lambda>scores. Inr (score # scores))))"

definition radar_header :: "pyfmt \<Rightarrow> int \<Rightarrow> int \<Rightarrow> int \<Rightarrow> int \<Rightarrow> int \<Rightarrow> string" where
  \<open>radar_header fm svg_width svg_height center_x center_y radius =
     concat
       [''<svg width="'',
        str_int svg_width,
        ''" height="'',
        str_int svg_height,
        ''" xmlns="http://www.w3.org/2000/svg">\<newline>'',
        ''            <style>\<newline>'',
        ''                .grid-line { stroke: #e2e8f0; stroke-width: 1; fill: none; }\<newline>'',
        ''                .axis-line { stroke: #cbd5e0; stroke-width: 1; }\<newline>'',
        ''                .data-line { stroke: #4299e1; stroke-width: 2; fill: rgba(66, 153, 225, 0.2); }\<newline>'',
        ''                .data-point { fill: #4299e1; }\<newline>'',
        ''                .category-label { font-size: 12px; fill: #4a5568; font-family: sans-serif; }\<newline>'',
        ''                .score-label { font-size: 10px; fill: #718096; font-family: sans-serif; }\<newline>'',
        ''            </style>\<newline>'',
        ''            \<newline>'',
        ''            <!-- Background circles -->\<newline>'',
        ''            <circle cx="'',
        str_int center_x,
        ''" cy="'',
        str_int center_y,
        ''" r="'',
        str_int radius,
        ''" fill="none" stroke="#f7fafc" stroke-width="2"/>\<newline>'',
        ''            <circle cx="'',
        str_int center_x,
        ''" cy="'',
        str_int center_y,
        ''" r="'',
        float_str fm (real_of_int radius * 0.75),
        ''" fill="none" stroke="#f7fafc" stroke-width="1"/>\<newline>'',
        ''            <circle cx="'',
        str_int center_x,
        ''" cy="'',
        str_int center_y,
        ''" r="'',
        float_str fm (real_of_int radius * 0.5),
        ''" fill="none" stroke="#f7fafc" stroke-width="1"/>\<newline>'',
        ''            <circle cx="'',
        str_int center_x,
        ''" cy="'',
        str_int center_y,
        ''" r="'',
        float_str fm (real_of_int radius * 0.25),
        ''" fill="none" stroke="#f7fafc" stroke-width="1"/>\<newline>'',
        ''            \<newline>'',
        ''            <!-- Axes -->\<newline>'',
        ''            <line x1="'',
        str_int center_x,
        ''" y1="'',
        str_int (center_y - radius),
        ''" x2="'',
        str_int center_x,
        ''" y2="'',
        str_int (center_y + radius),
        ''" class="axis-line"/>\<newline>'',
        ''            <line x1="'',
        str_int (center_x - radius),
        ''" y1="'',
        str_int center_y,
        ''" x2="'',
        str_int (center_x + radius),
        ''" y2="'',
        str_int center_y,
        ''" class="axis-line"/>\<newline>'',
        ''        '']\<close>

text \<open>\<^verbatim>\<open>angle = (2 * math.pi * i / len(categories)) - math.pi / 2\<close>\<close>

definition radar_angle :: "nat \<Rightarrow> nat \<Rightarrow> real" where
  "radar_angle i n = (2 * pi * real i / real n) - pi / 2"

definition radar_axis_line :: "pyfmt \<Rightarrow> int \<Rightarrow> int \<Rightarrow> real \<Rightarrow> real \<Rightarrow> string" where
  \<open>radar_axis_line fm center_x center_y end_x end_y =
     concat
       [''<line x1="'',
        str_int center_x,
        ''" y1="'',
        str_int center_y,
        ''" x2="'',
        float_str fm end_x,
        ''" y2="'',
        float_str fm end_y,
        ''" class="axis-line"/>'']\<close>

definition radar_category_label :: "pyfmt \<Rightarrow> real \<Rightarrow> real \<Rightarrow> string \<Rightarrow> string \<Rightarrow> string" where
  \<open>radar_category_label fm label_x label_y text_anchor category =
     concat
       [''<text x="'',
        float_str fm label_x,
        ''" y="'',
        float_str fm label_y,
        ''" text-anchor="'',
        text_anchor,
        ''" class="category-label">'',
        category,
        ''</text>'']\<close>

text \<open>The loop over \<^verbatim>\<open>enumerate(categories)\<close>.\<close>

fun radar_axes :: "pyfmt \<Rightarrow> int \<Rightarrow> int \<Rightarrow> int \<Rightarrow> nat \<Rightarrow> nat \<Rightarrow> string list \<Rightarrow> string \<Rightarrow> string" where
  "radar_axes fm center_x center_y radius n i [] svg = svg"
| "radar_axes fm center_x center_y radius n i (category # rest) svg =
     (let angle = radar_angle i n;
          end_x = real_of_int center_x + real_of_int radius * cos angle;
          end_y = real_of_int center_y + real_of_int radius * sin angle;
          svg = svg @ radar_axis_line fm center_x center_y end_x end_y;
          label_x = real_of_int center_x + real_of_int (radius + 20) * cos angle;
          label_y = real_of_int center_y + real_of_int (radius + 20) * sin angle;
          text_anchor =
            (if \<bar>cos angle\<bar> > 0.7 then (if cos angle > 0 then ''start'' else ''end'')
             else ''middle'');
          svg = svg @ radar_category_label fm label_x label_y text_anchor category
      in radar_axes fm center_x center_y radius n (Suc i) rest svg)"

text \<open>\<^verbatim>\<open>score_radius = radius * (score / 100)\<close>\<close>

definition radar_score_radius :: "int \<Rightarrow> pyval \<Rightarrow> error + real" where
  "radar_score_radius radius score =
     ebind (py_truediv score (PInt 100)) (\<lambda>q. Inr (real_of_int radius * q))"

definition radar_data_point :: "pyfmt \<Rightarrow> real \<Rightarrow> real \<Rightarrow> string" where
  \<open>radar_data_point fm point_x point_y =
     concat
       [''<circle cx="'',
        float_str fm point_x,
        ''" cy="'',
        float_str fm point_y,
        ''" r="4" class="data-point"/>'']\<close>

definition radar_score_label :: "pyfmt \<Rightarrow> real \<Rightarrow> real \<Rightarrow> pyval \<Rightarrow> string" where
  \<open>radar_score_label fm label_x label_y score =
     concat
       [''<text x="'',
        float_str fm label_x,
        ''" y="'',
        float_str fm label_y,
        ''" text-anchor="middle" class="score-label">'',
        py_str fm score,
        ''</text>'']\<close>

text \<open>The loop over \<^verbatim>\<open>enumerate(scores)\<close>; its state is the document so far and the
  list \<^verbatim>\<open>points\<close>.\<close>

fun radar_data ::
  "pyfmt \<Rightarrow> int \<Rightarrow> int \<Rightarrow> int \<Rightarrow> nat \<Rightarrow> nat \<Rightarrow> pyval list \<Rightarrow> string \<times> string list
     \<Rightarrow> error + string \<times> string list" where
  "radar_data fm center_x center_y radius n i [] (svg, points) = Inr (svg, points)"
| "radar_data fm center_x center_y radius n i (score # rest) (svg, points) =
     (let angle = radar_angle i n in
      ebind (radar_score_radius radius score) (\<lambda>score_radius.
        let point_x = real_of_int center_x + score_radius * cos angle;
            point_y = real_of_int center_y + score_radius * sin angle;
            points = points @ [float_str fm point_x @ '','' @ float_str fm point_y];
            svg = svg @ radar_data_point fm point_x point_y;
            label_x = real_of_int center_x + (score_radius + 15) * cos angle;
            label_y = real_of_int center_y + (score_radius + 15) * sin angle;
            svg = svg @ radar_score_label fm label_x label_y score
        in radar_data fm center_x center_y radius n (Suc i) rest (svg, points)))"

text \<open>\<^verbatim>\<open>" ".join(points)\<close>\<close>

fun join_space :: "string list \<Rightarrow> string" where
  "join_space [] = []"
| "join_space [p] = p"
| "join_space (p # q # ps) = p @ '' '' @ join_space (q # ps)"

definition radar_polygon :: "string list \<Rightarrow> string" where
  \<open>radar_polygon points =
     concat
       [''<polygon points="'',
        join_space points,
        ''" class="data-line"/>'']\<close>

definition generate_radar_chart :: "pyfmt \<Rightarrow> pyval \<Rightarrow> error + string" where
  "generate_radar_chart fm ratings =
     (if \<not> truthy ratings then Inr default_radar_chart else
      ebind (radar_scores ratings rating_map) (\<lambda>scores.
        let svg_width = 400;
            svg_height = 300;
            center_x = svg_width div 2;
            center_y = svg_height div 2;
            radius = min center_x center_y - 40;
            svg = radar_header fm svg_width svg_height center_x center_y radius;
            svg = radar_axes fm center_x center_y radius (length categories) 0 categories svg
        in ebind (radar_data fm center_x center_y radius (length scores) 0 scores (svg, []))
             (\<lambda>(svg, points). Inr (svg @ radar_polygon points @ ''</svg>''))))"

section \<open>Valuation bar chart\<close>

text \<open>A list comprehension \<^verbatim>\<open>[x[key] for x in xs]\<close>.\<close>

fun py_getitem_each :: "string \<Rightarrow> pyval list \<Rightarrow> error + pyval list" where
  "py_getitem_each key [] = Inr []"
| "py_getitem_each key (x # xs) =
     ebind (py_getitem x key) (\<lambda>v. ebind (py_getitem_each key xs) (\<lambda>vs. Inr (v # vs)))"

definition valuation_header :: "int \<Rightarrow> int \<Rightarrow> int \<Rightarrow> string" where
  \<open>valuation_header svg_width svg_height padding =
     concat
       [''<svg width="'',
        str_int svg_width,
        ''" height="'',
        str_int svg_height,
        ''" xmlns="http://www.w3.org/2000/svg">\<newline>'',
        ''            <style>\<newline>'',
        ''                .bar { fill: #4299e1; }\<newline>'',
        ''                .current-bar { fill: #48bb78; }\<newline>'',
        ''                .axis { stroke: #cbd5e0; stroke-width: 1; }\<newline>'',
        ''                .label { font-size: 12px; fill: #4a5568; font-family: sans-serif; }\<newline>'',
        ''                .price-label { font-size: 10px; fill: #718096; font-family: sans-serif; }\<newline>'',
        ''                .grid-line { stroke: #e2e8f0; stroke-width: 0.5; stroke-dasharray: 2,2; }\<newline>'',
        ''            </style>\<newline>'',
        ''            \<newline>'',
        ''            <!-- Grid lines -->\<newline>'',
        ''            <line x1="'',
        str_int padding,
        ''" y1="50" x2="'',
        str_int (svg_width - padding),
        ''" y2="50" class="grid-line"/>\<newline>'',
        ''            <line x1="'',
        str_int padding,
        ''" y1="100" x2="'',
        str_int (svg_width - padding),
        ''" y2="100" class="grid-line"/>\<newline>'',
        ''            <line x1="'',
        str_int padding,
        ''" y1="150" x2="'',
        str_int (svg_width - padding),
        ''" y2="150" class="grid-line"/>\<newline>'',
        ''            <line x1="'',
        str_int padding,
        ''" y1="200" x2="'',
        str_int (svg_width - padding),
        ''" y2="200" class="grid-line"/>\<newline>'',
        ''            \<newline>'',
        ''            <!-- Axis -->\<newline>'',
        ''            <line x1="'',
        str_int padding,
        ''" y1="50" x2="'',
        str_int padding,
        ''" y2="'',
        str_int (svg_height - 50),
        ''" class="axis"/>\<newline>'',
        ''            <line x1="'',
        str_int padding,
        ''" y1="'',
        str_int (svg_height - 50),
        ''" x2="'',
        str_int (svg_width - padding),
        ''" y2="'',
        str_int (svg_height - 50),
        ''" class="axis"/>\<newline>'',
        ''        '']\<close>

definition valuation_y_label :: "pyfmt \<Rightarrow> int \<Rightarrow> real \<Rightarrow> string \<Rightarrow> string" where
  \<open>valuation_y_label fm padding y price =
     concat
       [''<text x="'',
        str_int (padding - 10),
        ''" y="'',
        float_str fm (y + 3),
        ''" text-anchor="end" class="price-label">'',
        price,
        ''</text>'']\<close>

text \<open>The loop over \<^verbatim>\<open>enumerate([0.25, 0.5, 0.75, 1.0])\<close> that labels the y axis.\<close>

fun valuation_y_labels :: "pyfmt \<Rightarrow> int \<Rightarrow> int \<Rightarrow> pyval \<Rightarrow> real list \<Rightarrow> string \<Rightarrow> error + string" where
  "valuation_y_labels fm svg_height padding max_price [] svg = Inr svg"
| "valuation_y_labels fm svg_height padding max_price (value # rest) svg =
     (let y = real_of_int svg_height - 50 - 150 * value in
      ebind (py_mul_float max_price value) (\<lambda>scaled.
        let price = ''$'' @ int_comma (py_int scaled);
            svg = svg @ valuation_y_label fm padding y price
        in valuation_y_labels fm svg_height padding max_price rest svg))"

definition listing_bar :: "pyfmt \<Rightarrow> int \<Rightarrow> int \<Rightarrow> real \<Rightarrow> real \<Rightarrow> real \<Rightarrow> string \<Rightarrow> string" where
  \<open>listing_bar fm svg_height bar_width x y current_height price_text =
     concat
       [''\<newline>'',
        ''            <rect x="'',
        float_str fm x,
        ''" y="'',
        float_str fm y,
        ''" width="'',
        str_int bar_width,
        ''" height="'',
        float_str fm current_height,
        ''" class="current-bar"/>\<newline>'',
        ''            <text x="'',
        float_str fm (x + real_of_int bar_width / 2),
        ''" y="'',
        float_str fm (y - 5),
        ''" text-anchor="middle" class="price-label">Current ($'',
        price_text,
        '')</text>\<newline>'',
        ''            <text x="'',
        float_str fm (x + real_of_int bar_width / 2),
        ''" y="'',
        str_int (svg_height - 35),
        ''" text-anchor="middle" class="label">Listing</text>\<newline>'',
        ''        '']\<close>

definition comparable_bar :: "pyfmt \<Rightarrow> int \<Rightarrow> int \<Rightarrow> nat \<Rightarrow> real \<Rightarrow> real \<Rightarrow> real \<Rightarrow> string \<Rightarrow> string" where
  \<open>comparable_bar fm svg_height bar_width i x y height price_text =
     concat
       [''\<newline>'',
        ''                <rect x="'',
        float_str fm x,
        ''" y="'',
        float_str fm y,
        ''" width="'',
        str_int bar_width,
        ''" height="'',
        float_str fm height,
        ''" class="bar"/>\<newline>'',
        ''                <text x="'',
        float_str fm (x + real_of_int bar_width / 2),
        ''" y="'',
        float_str fm (y - 5),
        ''" text-anchor="middle" class="price-label">$'',
        price_text,
        ''</text>\<newline>'',
        ''                <text x="'',
        float_str fm (x + real_of_int bar_width / 2),
        ''" y="'',
        str_int (svg_height - 35),
        ''" text-anchor="middle" class="label">Comp '',
        str_int (int i + 1),
        ''</text>\<newline>'',
        ''            '']\<close>

text \<open>The loop over \<^verbatim>\<open>enumerate(comparable_sales)\<close>. The source reads \<^verbatim>\<open>sale['price']\<close>
  twice, for the height and for the label; the second read cannot fail after the first.\<close>

fun valuation_bars ::
  "pyfmt \<Rightarrow> int \<Rightarrow> int \<Rightarrow> int \<Rightarrow> real \<Rightarrow> pyval \<Rightarrow> nat \<Rightarrow> pyval list \<Rightarrow> string \<Rightarrow> error + string" where
  "valuation_bars fm svg_height padding bar_width spacing max_price i [] svg = Inr svg"
| "valuation_bars fm svg_height padding bar_width spacing max_price i (sale # rest) svg =
     (let x = real_of_int padding + real (i + 2) * spacing + real_of_int (int (i + 1) * bar_width) in
      ebind (py_getitem sale ''price'') (\<lambda>sale_price.
      ebind (py_truediv sale_price max_price) (\<lambda>q.
        let height = q * 150;
            y = real_of_int svg_height - 50 - height
        in ebind (py_format_comma fm sale_price) (\<lambda>price_text.
             valuation_bars fm svg_height padding bar_width spacing max_price (Suc i) rest
               (svg @ comparable_bar fm svg_height bar_width i x y height price_text)))))"

definition generate_valuation_chart :: "pyfmt \<Rightarrow> pyval \<Rightarrow> error + string" where
  "generate_valuation_chart fm valuation_data =
     ebind (py_get valuation_data ''comparable_sales'' (PList [])) (\<lambda>comparable_sales.
     if \<not> truthy comparable_sales then Inr default_bar_chart else
     let svg_width = 500;
         svg_height = 300;
         bar_width = 40;
         padding = 60
     in
     ebind (py_iter comparable_sales) (\<lambda>sales.
     ebind (py_getitem_each ''price'' sales) (\<lambda>prices.
     ebind (py_get valuation_data ''listing_price'' (PInt 0)) (\<lambda>listing_price.
     ebind (py_max (prices @ [listing_price])) (\<lambda>max_price.
     ebind (valuation_y_labels fm svg_height padding max_price [0.25, 0.5, 0.75, 1.0]
              (valuation_header svg_width svg_height padding)) (\<lambda>svg.
     let chart_width = svg_width - 2 * padding;
         available_width = chart_width - (int (length sales) + 1) * bar_width;
         spacing = real_of_int available_width / real_of_int (int (length sales) + 2)
     in
     ebind (py_get valuation_data ''listing_price'' (PInt 0)) (\<lambda>current_price.
     ebind (py_truediv current_price max_price) (\<lambda>q.
     let current_height = q * 150;
         x = real_of_int padding + spacing;
         y = real_of_int svg_height - 50 - current_height
     in
     ebind (py_format_comma fm current_price) (\<lambda>price_text.
     ebind (valuation_bars fm svg_height padding bar_width spacing max_price 0 sales
              (svg @ listing_bar fm svg_height bar_width x y current_height price_text)) (\<lambda>svg.
     Inr (svg @ ''</svg>'')))))))))))"

section \<open>Price per square foot comparison\<close>

definition price_header :: "pyfmt \<Rightarrow> real \<Rightarrow> real \<Rightarrow> string" where
  \<open>price_header fm current_pps avg_pps =
     concat
       [''<svg width="400" height="200" xmlns="http://www.w3.org/2000/svg">\<newline>'',
        ''            <style>\<newline>'',
        ''                .bar { fill: #4299e1; }\<newline>'',
        ''                .current-bar { fill: #48bb78; }\<newline>'',
        ''                .avg-line { stroke: #ed8936; stroke-width: 2; stroke-dasharray: 5,5; }\<newline>'',
        ''                .label { font-size: 12px; fill: #4a5568; font-family: sans-serif; }\<newline>'',
        ''                .value { font-size: 11px; fill: #718096; font-family: sans-serif; }\<newline>'',
        ''            </style>\<newline>'',
        ''            \<newline>'',
        ''            <text x="10" y="20" class="label">Price per Sq Ft Comparison</text>\<newline>'',
        ''            \<newline>'',
        ''            <!-- Current property -->\<newline>'',
        ''            <rect x="50" y="40" width="60" height="30" class="current-bar"/>\<newline>'',
        ''            <text x="80" y="30" text-anchor="middle" class="value">$'',
        float_fixed0 fm current_pps,
        ''</text>\<newline>'',
        ''            <text x="80" y="85" text-anchor="middle" class="label">Current</text>\<newline>'',
        ''            \<newline>'',
        ''            <!-- Average line -->\<newline>'',
        ''            <line x1="0" y1="'',
        float_str fm (100 - avg_pps / 2),
        ''" x2="400" y2="'',
        float_str fm (100 - avg_pps / 2),
        ''" class="avg-line"/>\<newline>'',
        ''            <text x="380" y="'',
        float_str fm (95 - avg_pps / 2),
        ''" text-anchor="end" class="value">Avg: $'',
        float_fixed0 fm avg_pps,
        ''</text>\<newline>'',
        ''        '']\<close>

definition price_bar :: "pyfmt \<Rightarrow> nat \<Rightarrow> int \<Rightarrow> real \<Rightarrow> real \<Rightarrow> string \<Rightarrow> string" where
  \<open>price_bar fm i x y height pps_text =
     concat
       [''\<newline>'',
        ''                <rect x="'',
        str_int x,
        ''" y="'',
        float_str fm y,
        ''" width="40" height="'',
        float_str fm height,
        ''" class="bar"/>\<newline>'',
        ''                <text x="'',
        str_int (x + 20),
        ''" y="'',
        float_str fm (y - 5),
        ''" text-anchor="middle" class="value">$'',
        pps_text,
        ''</text>\<newline>'',
        ''                <text x="'',
        str_int (x + 20),
        ''" y="85" text-anchor="middle" class="label">Comp '',
        str_int (int i + 1),
        ''</text>\<newline>'',
        ''            '']\<close>

text \<open>The loop over \<^verbatim>\<open>enumerate(comp_pps)\<close>.\<close>

fun price_bars :: "pyfmt \<Rightarrow> nat \<Rightarrow> pyval list \<Rightarrow> string \<Rightarrow> error + string" where
  "price_bars fm i [] svg = Inr svg"
| "price_bars fm i (pps # rest) svg =
     (let x = 150 + int i * 70 in
      ebind (py_truediv pps (PInt 2)) (\<lambda>height.
        let y = 100 - height
        in ebind (py_format_fixed0 fm pps) (\<lambda>pps_text.
             price_bars fm (Suc i) rest (svg @ price_bar fm i x y height pps_text))))"

definition generate_price_comparison :: "pyfmt \<Rightarrow> pyval \<Rightarrow> pyval \<Rightarrow> pyval \<Rightarrow> error + string" where
  "generate_price_comparison fm comparables current_price current_sqft =
     (if \<not> truthy comparables \<or> py_eq_zero current_sqft then Inr default_comparison_chart else
      ebind (py_truediv current_price current_sqft) (\<lambda>current_pps.
      ebind (py_iter comparables) (\<lambda>cs.
      ebind (py_getitem_each ''price_per_sqft'' cs) (\<lambda>comp_pps.
      ebind (py_sum comp_pps) (\<lambda>total.
      ebind (py_truediv total (PInt (int (length comp_pps)))) (\<lambda>avg_pps.
      ebind (price_bars fm 0 comp_pps (price_header fm current_pps avg_pps)) (\<lambda>svg.
      Inr (svg @ ''</svg>''))))))))"

section \<open>Market trend indicator\<close>

definition trend_colors :: "(string \<times> string) list" where
  "trend_colors =
     [(''Rising'', ''#48bb78''), (''Stable'', ''#fbbf24''),
      (''Declining'', ''#f56565''), (''Volatile'', ''#9f7aea'')]"

text \<open>A dictionary key must be hashable: a list or a dictionary is not.\<close>

fun hashable :: "pyval \<Rightarrow> bool" where
  "hashable (PList xs) = False"
| "hashable (PDict kvs) = False"
| "hashable _ = True"

text \<open>\<^verbatim>\<open>trend_colors.get(trend, '#a0aec0')\<close>: the keys are strings, so only a string finds one.\<close>

definition trend_color :: "pyval \<Rightarrow> error + string" where
  "trend_color trend =
     (if \<not> hashable trend then Inl TypeError
      else Inr (case trend of
                  PStr s \<Rightarrow> (case map_of trend_colors s of Some c \<Rightarrow> c | None \<Rightarrow> ''#a0aec0'')
                | _ \<Rightarrow> ''#a0aec0''))"

definition trend_glyph :: "pyval \<Rightarrow> string" where
  "trend_glyph trend =
     (if py_eq_str trend ''Rising'' then ''M60,65 L75,50 L90,65'' else
      if py_eq_str trend ''Stable'' then ''M60,60 L75,60 L90,60'' else
      if py_eq_str trend ''Declining'' then ''M60,50 L75,65 L90,50'' else
      ''M60,55 L68,65 L75,45 L82,65 L90,55'')"

definition trend_svg :: "pyfmt \<Rightarrow> pyval \<Rightarrow> string \<Rightarrow> string" where
  \<open>trend_svg fm trend color =
     concat
       [''<svg width="150" height="80" xmlns="http://www.w3.org/2000/svg">\<newline>'',
        ''            <style>\<newline>'',
        ''                .trend-icon { fill: '',
        color,
        ''; }\<newline>'',
        ''                .trend-text { font-size: 14px; fill: #4a5568; font-family: sans-serif; font-weight: bold; }\<newline>'',
        ''                .trend-label { font-size: 11px; fill: #718096; font-family: sans-serif; }\<newline>'',
        ''            </style>\<newline>'',
        ''            \<newline>'',
        ''            <rect x="10" y="30" width="130" height="40" rx="8" fill="#f7fafc" stroke="#e2e8f0" stroke-width="1"/>\<newline>'',
        ''            \<newline>'',
        ''            <text x="75" y="25" text-anchor="middle" class="trend-label">Market Trend</text>\<newline>'',
        ''            <text x="75" y="55" text-anchor="middle" class="trend-text">'',
        py_str fm trend,
        ''</text>\<newline>'',
        ''            \<newline>'',
        ''            <!-- Trend icon -->\<newline>'',
        ''            <path class="trend-icon" d="'',
        trend_glyph trend,
        ''" stroke="'',
        color,
        ''" stroke-width="3" fill="none"/>\<newline>'',
        ''        </svg>'']\<close>

definition generate_market_trend :: "pyfmt \<Rightarrow> pyval \<Rightarrow> error + string" where
  "generate_market_trend fm trend = ebind (trend_color trend) (\<lambda>color. Inr (trend_svg fm trend color))"

section \<open>Investment gauge\<close>

definition gauge_svg :: "pyfmt \<Rightarrow> pyval \<Rightarrow> string \<Rightarrow> string \<Rightarrow> real \<Rightarrow> string" where
  \<open>gauge_svg fm score color label dash =
     concat
       [''<svg width="200" height="120" xmlns="http://www.w3.org/2000/svg">\<newline>'',
        ''            <style>\<newline>'',
        ''                .gauge-back { fill: #e2e8f0; }\<newline>'',
        ''                .gauge-fill { fill: '',
        color,
        ''; }\<newline>'',
        ''                .gauge-text { font-size: 24px; fill: #2d3748; font-family: sans-serif; font-weight: bold; }\<newline>'',
        ''                .gauge-label { font-size: 12px; fill: #718096; font-family: sans-serif; }\<newline>'',
        ''            </style>\<newline>'',
        ''            \<newline>'',
        ''            <!-- Gauge background -->\<newline>'',
        ''            <path d="M20,100 A80,80 0 0,1 180,100" fill="none" stroke="#e2e8f0" stroke-width="20"/>\<newline>'',
        ''            \<newline>'',
        ''            <!-- Gauge fill based on score -->\<newline>'',
        ''            <path d="M20,100 A80,80 0 0,1 180,100" fill="none" stroke="'',
        color,
        ''" stroke-width="20" \<newline>'',
        ''                  stroke-dasharray="'',
        float_str fm dash,
        '', 251" stroke-linecap="round"/>\<newline>'',
        ''            \<newline>'',
        ''            <!-- Score text -->\<newline>'',
        ''            <text x="100" y="85" text-anchor="middle" class="gauge-text">'',
        py_str fm score,
        ''</text>\<newline>'',
        ''            <text x="100" y="105" text-anchor="middle" class="gauge-label">'',
        label,
        ''</text>\<newline>'',
        ''            \<newline>'',
        ''            <!-- Labels -->\<newline>'',
        ''            <text x="30" y="115" text-anchor="middle" class="gauge-label" font-size="10">0</text>\<newline>'',
        ''            <text x="170" y="115" text-anchor="middle" class="gauge-label" font-size="10">100</text>\<newline>'',
        ''        </svg>'']\<close>

text \<open>\<^verbatim>\<open>score * 2.51\<close>, the first number of the \<^verbatim>\<open>stroke-dasharray\<close>.\<close>

definition gauge_dash :: "pyval \<Rightarrow> error + real" where
  "gauge_dash score = py_mul_float score 2.51"

definition generate_investment_gauge :: "pyfmt \<Rightarrow> pyval \<Rightarrow> error + string" where
  "generate_investment_gauge fm score =
     ebind (score_to_color score) (\<lambda>color.
     ebind (score_to_label score) (\<lambda>label.
     ebind (gauge_dash score) (\<lambda>dash.
     Inr (gauge_svg fm score color label dash))))"

section \<open>The orchestrator\<close>

text \<open>The result dictionary \<^verbatim>\<open>charts\<close>, as its items in insertion order.\<close>

definition generate_all_charts :: "pyfmt \<Rightarrow> pyval \<Rightarrow> error + (string \<times> string) list" where
  "generate_all_charts fm property_data =
     ebind (py_get property_data ''ratings'' (PDict [])) (\<lambda>ratings.
     ebind (generate_radar_chart fm ratings) (\<lambda>ratings_radar.
     ebind (py_get property_data ''valuation'' (PDict [])) (\<lambda>valuation.
     ebind (generate_valuation_chart fm valuation) (\<lambda>valuation_chart.
     ebind (py_get property_data ''valuation'' (PDict [])) (\<lambda>valuation.
     ebind (py_get valuation ''comparable_sales'' (PList [])) (\<lambda>comparables.
     ebind (py_get property_data ''price'' (PInt 0)) (\<lambda>price.
     ebind (py_get property_data ''sqft'' (PInt 0)) (\<lambda>sqft.
     ebind (generate_price_comparison fm comparables price sqft) (\<lambda>price_comparison.
     ebind (py_get property_data ''valuation'' (PDict [])) (\<lambda>valuation.
     ebind (py_get valuation ''price_trend'' (PStr ''Stable'')) (\<lambda>trend.
     ebind (generate_market_trend fm trend) (\<lambda>market_trend.
     ebind (py_get property_data ''ratings'' (PDict [])) (\<lambda>ratings.
     ebind (py_get ratings ''investment_potential'' (PDict [])) (\<lambda>investment.
     ebind (py_get investment ''score'' (PInt 75)) (\<lambda>score.
     ebind (generate_investment_gauge fm score) (\<lambda>investment_gauge.
     Inr [(''ratings_radar'', ratings_radar),
          (''valuation_chart'', valuation_chart),
          (''price_comparison'', price_comparison),
          (''market_trend'', market_trend),
          (''investment_gauge'', investment_gauge)]))))))))))))))))"


section \<open>Definitions used to state the properties\<close>

text \<open>The five score buckets as the specification words them: closed below, open above,
  with boundaries 60, 70, 80 and 90; and the colour and the label of each bucket, from the
  weakest to the strongest.\<close>

definition score_bucket :: "real \<Rightarrow> nat" where
  "score_bucket s =
     (if s < 60 then 0 else if s < 70 then 1 else if s < 80 then 2 else if s < 90 then 3 else 4)"

definition bucket_colors :: "string list" where
  "bucket_colors = [''#EF4444'', ''#F59E0B'', ''#FBBF24'', ''#34D399'', ''#10B981'']"

definition bucket_labels :: "string list" where
  "bucket_labels = [''Needs Attention'', ''Fair'', ''Good'', ''Very Good'', ''Excellent'']"

text \<open>A document contains the text \<open>a\<close>, then \<open>hole\<close>, then \<open>b\<close>, one after the other.\<close>

definition has_segment :: "string \<Rightarrow> string \<Rightarrow> string \<Rightarrow> string \<Rightarrow> bool" where
  "has_segment a hole b doc = (\<exists>pre post. doc = pre @ a @ hole @ b @ post)"

text \<open>One formatting of floats, to state examples on closed terms: a float prints as its
  integer part. The theorems hold for every formatting.\<close>

definition demo_fmt :: pyfmt where
  "demo_fmt =
     \<lparr>float_str = (\<lambda>r. str_int (floor r)),
      float_comma = (\<lambda>r. int_comma (floor r)),
      float_fixed0 = (\<lambda>r. str_int (floor r)),
      container_str = (\<lambda>v. [])\<rparr>"

text \<open>The score the specification gives a category of a rating set: the \<open>score\<close> of the
  category's rating when the key is present, the default 75 when the category or its score
  is missing. It is defined on ratings that are mappings with an integer score.\<close>

definition rating_score :: "(string \<times> pyval) list \<Rightarrow> string \<Rightarrow> int option" where
  "rating_score kvs key =
     (case map_of kvs key of
        None \<Rightarrow> Some 75
      | Some (PDict rating) \<Rightarrow>
          (case map_of rating ''score'' of
             None \<Rightarrow> Some 75
           | Some (PInt s) \<Rightarrow> Some s
           | Some _ \<Rightarrow> None)
      | Some _ \<Rightarrow> None)"

text \<open>The point at distance \<open>rho\<close> from the centre \<open>(cx, cy)\<close> in the direction \<open>theta\<close>, and the
  text of a point in the \<^verbatim>\<open>points\<close> attribute of a polygon.\<close>

definition polar_point :: "real \<Rightarrow> real \<Rightarrow> real \<Rightarrow> real \<Rightarrow> real \<times> real" where
  "polar_point cx cy rho theta = (cx + rho * cos theta, cy + rho * sin theta)"

definition point_text :: "pyfmt \<Rightarrow> real \<times> real \<Rightarrow> string" where
  "point_text fm p = float_str fm (fst p) @ '','' @ float_str fm (snd p)"


text \<open>A comparable sale that is a mapping whose entry \<open>key\<close> is the number \<open>x\<close>.\<close>

definition sale_field :: "string \<Rightarrow> pyval \<Rightarrow> real \<Rightarrow> bool" where
  "sale_field key sale x =
     (case sale of
        PDict kvs \<Rightarrow> (case map_of kvs key of Some v \<Rightarrow> num_val v = Some x | None \<Rightarrow> False)
      | _ \<Rightarrow> False)"

text \<open>A comparable sale that is a mapping whose \<open>price\<close> is the integer \<open>p\<close>.\<close>

definition sale_price :: "pyval \<Rightarrow> int \<Rightarrow> bool" where
  "sale_price sale p =
     (case sale of PDict kvs \<Rightarrow> map_of kvs ''price'' = Some (PInt p) | _ \<Rightarrow> False)"



text \<open>Two values are the same input when they are equal as Python values, whatever the
  insertion order of their dictionaries: scalars are identical, lists agree element by
  element, and dictionaries agree key by key.\<close>

inductive py_same :: "pyval \<Rightarrow> pyval \<Rightarrow> bool" where
  same_None: "py_same PNone PNone"
| same_Bool: "py_same (PBool b) (PBool b)"
| same_Int: "py_same (PInt i) (PInt i)"
| same_Float: "py_same (PFloat r) (PFloat r)"
| same_Str: "py_same (PStr s) (PStr s)"
| same_List: "list_all2 py_same xs ys \<Longrightarrow> py_same (PList xs) (PList ys)"
| same_Dict: "(\<And>k. rel_option py_same (map_of kvs k) (map_of kvs' k)) \<Longrightarrow>
     py_same (PDict kvs) (PDict kvs')"

section \<open>Basic facts\<close>

lemma ebind_Inl [simp]: "ebind (Inl e) f = Inl e"
  by (simp add: ebind_def)

lemma ebind_Inr [simp]: "ebind (Inr v) f = f v"
  by (simp add: ebind_def)

lemma has_segment_here: "has_segment a hole b (a @ hole @ b @ s)"
  unfolding has_segment_def by (rule exI[of _ "[]"], rule exI[of _ s]) simp

lemma has_segment_skip: "has_segment a hole b s \<Longrightarrow> has_segment a hole b (p @ s)"
  unfolding has_segment_def by (metis append.assoc)

lemma py_ge_num: "num_val v = Some x \<Longrightarrow> py_ge v n = Inr (n \<le> x)"
  by (simp add: py_ge_def)

lemma score_to_color_num:
  "num_val v = Some x \<Longrightarrow> score_to_color v = Inr (bucket_colors ! score_bucket x)"
  by (simp add: score_to_color_def py_ge_num score_bucket_def bucket_colors_def)

lemma score_to_label_num:
  "num_val v = Some x \<Longrightarrow> score_to_label v = Inr (bucket_labels ! score_bucket x)"
  by (simp add: score_to_label_def py_ge_num score_bucket_def bucket_labels_def)

section \<open>Score classification\<close>

text \<open>
  C5. \<^verbatim>\<open>score_to_color\<close> and \<^verbatim>\<open>score_to_label\<close> return a value for every number, integer
  or float. Both are decided by the same bucket of the score: below 60, 60 to below 70, 70
  to below 80, 80 to below 90, and 90 or more. The five colours are distinct and so are the
  five labels, so the colour bucket and the label bucket of a score always agree. A score on
  a boundary is in the higher bucket: 90 is \<^verbatim>\<open>Excellent\<close> with the strongest positive colour,
  80 is in the bucket of 85 and not in that of 79, and a score below 60 is
  \<^verbatim>\<open>Needs Attention\<close> with the strongest negative colour.
\<close>

theorem score_classification_buckets:
  "score_to_color (PInt s) = Inr (bucket_colors ! score_bucket (real_of_int s))
   \<and> score_to_label (PInt s) = Inr (bucket_labels ! score_bucket (real_of_int s))
   \<and> score_to_color (PFloat r) = Inr (bucket_colors ! score_bucket r)
   \<and> score_to_label (PFloat r) = Inr (bucket_labels ! score_bucket r)
   \<and> distinct bucket_colors \<and> distinct bucket_labels
   \<and> score_to_label (PInt 90) = Inr ''Excellent'' \<and> score_to_color (PInt 90) = Inr ''#10B981''
   \<and> score_bucket 80 = score_bucket 85 \<and> score_bucket 79 \<noteq> score_bucket 80
   \<and> score_to_label (PInt 59) = Inr ''Needs Attention'' \<and> score_to_color (PInt 59) = Inr ''#EF4444''"
  by (simp add: score_to_color_num score_to_label_num)
     (simp add: score_bucket_def bucket_colors_def bucket_labels_def)

theorem score_classification_buckets_witness:
  "score_to_color (PInt 85) = Inr ''#34D399'' \<and> score_to_label (PInt 85) = Inr ''Very Good''
   \<and> score_to_color (PFloat 69.5) = Inr ''#F59E0B'' \<and> score_to_label (PFloat 69.5) = Inr ''Fair''"
  using score_classification_buckets [of 85 "69.5"]
  by (simp add: score_bucket_def bucket_colors_def bucket_labels_def)

section \<open>Investment gauge\<close>

text \<open>
  C6. For every integer score the gauge document is the gauge template filled with the
  colour and the label of the score's bucket and with the dash length \<open>score * 2.51\<close>; the
  template writes that length as the first number of the \<^verbatim>\<open>stroke-dasharray\<close> of the
  foreground arc, followed by 251, so the covered fraction of the 251 path units is
  \<open>score / 100\<close>. (Floats are real numbers here: the rounding of \<open>score * 2.51\<close> is not
  modelled.)
\<close>

theorem gauge_dash_proportional:
  \<open>generate_investment_gauge fm (PInt s) =
     Inr (gauge_svg fm (PInt s) (bucket_colors ! score_bucket (real_of_int s))
            (bucket_labels ! score_bucket (real_of_int s)) (real_of_int s * 2.51))
   \<and> real_of_int s * 2.51 / 251 = real_of_int s / 100
   \<and> has_segment ''                  stroke-dasharray="'' (float_str fm dash)
         '', 251" stroke-linecap="round"/>\<newline>'' (gauge_svg fm score color label dash)\<close>
proof (intro conjI)
  show "generate_investment_gauge fm (PInt s) =
     Inr (gauge_svg fm (PInt s) (bucket_colors ! score_bucket (real_of_int s))
            (bucket_labels ! score_bucket (real_of_int s)) (real_of_int s * 2.51))"
    by (simp add: generate_investment_gauge_def score_to_color_num score_to_label_num
        gauge_dash_def py_mul_float_def)
  show "real_of_int s * 2.51 / 251 = real_of_int s / 100"
    by simp
  show \<open>has_segment ''                  stroke-dasharray="'' (float_str fm dash)
         '', 251" stroke-linecap="round"/>\<newline>'' (gauge_svg fm score color label dash)\<close>
    unfolding gauge_svg_def concat.simps
    by (rule has_segment_here | rule has_segment_skip)+
qed

theorem gauge_dash_proportional_witness:
  "generate_investment_gauge demo_fmt (PInt 82) =
     Inr (gauge_svg demo_fmt (PInt 82) ''#34D399'' ''Very Good'' (82 * 2.51))"
  using gauge_dash_proportional [of demo_fmt 82]
  by (simp add: score_bucket_def bucket_colors_def bucket_labels_def)


section \<open>More basic facts\<close>

lemma has_text_here: "has_segment a [] [] (a @ s)"
  unfolding has_segment_def by (rule exI[of _ "[]"], rule exI[of _ s]) simp

lemma trend_color_str:
  "trend_color (PStr s) = Inr (case map_of trend_colors s of Some c \<Rightarrow> c | None \<Rightarrow> ''#a0aec0'')"
  by (simp add: trend_color_def)

section \<open>Market trend indicator\<close>

text \<open>
  C9. The trend indicator maps \<^verbatim>\<open>Rising\<close> to the path \<^verbatim>\<open>M60,65 L75,50 L90,65\<close> (its middle
  point is the highest on the canvas, where y grows downward: an upward chevron),
  \<^verbatim>\<open>Declining\<close> to \<^verbatim>\<open>M60,50 L75,65 L90,50\<close> (middle point lowest: a downward chevron),
  \<^verbatim>\<open>Stable\<close> to the flat line \<^verbatim>\<open>M60,60 L75,60 L90,60\<close> and \<^verbatim>\<open>Volatile\<close> to the zigzag
  \<^verbatim>\<open>M60,55 L68,65 L75,45 L82,65 L90,55\<close>, each with its own colour. Every other string
  returns a document too (nothing is raised), with the zigzag and the neutral colour
  \<^verbatim>\<open>#a0aec0\<close>. The document carries the glyph as the path data, the colour as its stroke and
  the string itself as the label.
\<close>

theorem market_trend_mapping:
  \<open>generate_market_trend fm (PStr ''Rising'') = Inr (trend_svg fm (PStr ''Rising'') ''#48bb78'')
   \<and> trend_glyph (PStr ''Rising'') = ''M60,65 L75,50 L90,65''
   \<and> generate_market_trend fm (PStr ''Declining'') = Inr (trend_svg fm (PStr ''Declining'') ''#f56565'')
   \<and> trend_glyph (PStr ''Declining'') = ''M60,50 L75,65 L90,50''
   \<and> generate_market_trend fm (PStr ''Stable'') = Inr (trend_svg fm (PStr ''Stable'') ''#fbbf24'')
   \<and> trend_glyph (PStr ''Stable'') = ''M60,60 L75,60 L90,60''
   \<and> generate_market_trend fm (PStr ''Volatile'') = Inr (trend_svg fm (PStr ''Volatile'') ''#9f7aea'')
   \<and> trend_glyph (PStr ''Volatile'') = ''M60,55 L68,65 L75,45 L82,65 L90,55''
   \<and> (s \<noteq> ''Rising'' \<and> s \<noteq> ''Stable'' \<and> s \<noteq> ''Declining'' \<and> s \<noteq> ''Volatile'' \<longrightarrow>
        generate_market_trend fm (PStr s) = Inr (trend_svg fm (PStr s) ''#a0aec0'')
        \<and> trend_glyph (PStr s) = ''M60,55 L68,65 L75,45 L82,65 L90,55'')
   \<and> has_segment ''            <path class="trend-icon" d="'' (trend_glyph trend) ''" stroke="''
         (trend_svg fm trend color)
   \<and> has_segment ''" stroke="'' color ''" stroke-width="3" fill="none"/>\<newline>''
         (trend_svg fm trend color)
   \<and> has_segment ''            <text x="75" y="55" text-anchor="middle" class="trend-text">''
         (py_str fm trend) ''</text>\<newline>'' (trend_svg fm trend color)\<close>
proof (intro conjI impI)
  show \<open>has_segment ''            <path class="trend-icon" d="'' (trend_glyph trend) ''" stroke="''
         (trend_svg fm trend color)\<close>
    unfolding trend_svg_def concat.simps
    by (rule has_segment_here | rule has_segment_skip)+
  show \<open>has_segment ''" stroke="'' color ''" stroke-width="3" fill="none"/>\<newline>''
         (trend_svg fm trend color)\<close>
    unfolding trend_svg_def concat.simps
    by (rule has_segment_here | rule has_segment_skip)+
  show \<open>has_segment ''            <text x="75" y="55" text-anchor="middle" class="trend-text">''
         (py_str fm trend) ''</text>\<newline>'' (trend_svg fm trend color)\<close>
    unfolding trend_svg_def concat.simps
    by (rule has_segment_here | rule has_segment_skip)+
qed (simp_all add: generate_market_trend_def trend_color_str trend_colors_def trend_glyph_def py_eq_str_def)

theorem market_trend_mapping_witness:
  "generate_market_trend demo_fmt (PStr ''Skyrocketing'') =
     Inr (trend_svg demo_fmt (PStr ''Skyrocketing'') ''#a0aec0'')
   \<and> trend_glyph (PStr ''Skyrocketing'') = ''M60,55 L68,65 L75,45 L82,65 L90,55''"
  using market_trend_mapping [of demo_fmt "''Skyrocketing''"]
  by simp

section \<open>Radar chart: how the loops extend the document\<close>

lemma radar_axes_extends:
  "\<exists>x. radar_axes fm cx cy r n i cats svg = svg @ x"
proof (induction cats arbitrary: i svg)
  case Nil
  then show ?case by simp
next
  case (Cons c cats)
  obtain svg1 where s: "radar_axes fm cx cy r n i (c # cats) svg = radar_axes fm cx cy r n (Suc i) cats (svg @ svg1)"
    by (simp add: Let_def)
  from Cons.IH[of "Suc i" "svg @ svg1"] obtain x where
    "radar_axes fm cx cy r n (Suc i) cats (svg @ svg1) = (svg @ svg1) @ x" by blast
  with s have "radar_axes fm cx cy r n i (c # cats) svg = svg @ (svg1 @ x)" by simp
  then show ?case by blast
qed

lemma radar_data_extends:
  "radar_data fm cx cy r n i scores (svg, pts) = Inr (svg', pts') \<Longrightarrow> \<exists>x. svg' = svg @ x"
proof (induction scores arbitrary: i svg pts)
  case Nil
  then show ?case by simp
next
  case (Cons s scores)
  show ?case
  proof (cases "radar_score_radius r s")
    case (Inl e)
    with Cons.prems show ?thesis by simp
  next
    case (Inr sr)
    with Cons.prems obtain svg1 pts1 where
      "radar_data fm cx cy r n (Suc i) scores (svg @ svg1, pts1) = Inr (svg', pts')"
      by (simp add: Let_def)
    from Cons.IH[OF this] obtain x where "svg' = (svg @ svg1) @ x" by blast
    then have "svg' = svg @ (svg1 @ x)" by simp
    then show ?thesis by blast
  qed
qed

section \<open>Radar chart: scores and points\<close>

lemma radar_header_start:
  \<open>\<exists>rest. radar_header fm 400 300 cx cy r =
     ''<svg width="400" height="300" xmlns="http://www.w3.org/2000/svg">\<newline>            <s'' @ rest\<close>
  by (simp add: radar_header_def str_int_def nat_digits.simps digit_char_def)

lemma default_radar_chart_start:
  \<open>\<exists>rest. default_radar_chart =
     ''<svg width="400" height="300" xmlns="http://www.w3.org/2000/svg">\<newline>            <r'' @ rest\<close>
  by (simp add: default_radar_chart_def)

lemma radar_chart_parts:
  assumes "truthy ratings" "generate_radar_chart fm ratings = Inr doc"
  shows "\<exists>scores svg points.
           radar_scores ratings rating_map = Inr scores
           \<and> radar_data fm 200 150 110 (length scores) 0 scores
               (radar_axes fm 200 150 110 (length categories) 0 categories
                  (radar_header fm 400 300 200 150 110), []) = Inr (svg, points)
           \<and> doc = svg @ radar_polygon points @ ''</svg>''"
proof (cases "radar_scores ratings rating_map")
  case (Inl e)
  with assms show ?thesis by (simp add: generate_radar_chart_def)
next
  case (Inr scores)
  show ?thesis
  proof (cases "radar_data fm 200 150 110 (length scores) 0 scores
               (radar_axes fm 200 150 110 (length categories) 0 categories
                  (radar_header fm 400 300 200 150 110), [])")
    case (Inl e)
    with assms Inr show ?thesis by (simp add: generate_radar_chart_def Let_def)
  next
    case Inr2: (Inr res)
    obtain svg points where res: "res = (svg, points)" by (cases res)
    with assms Inr Inr2 have "doc = svg @ radar_polygon points @ ''</svg>''"
      by (simp add: generate_radar_chart_def Let_def)
    with Inr Inr2 res show ?thesis by simp
  qed
qed

lemma radar_chart_not_default:
  assumes "truthy ratings" "generate_radar_chart fm ratings = Inr doc"
  shows "doc \<noteq> default_radar_chart"
proof -
  from radar_chart_parts[OF assms] obtain scores svg points where
    d: "radar_data fm 200 150 110 (length scores) 0 scores
          (radar_axes fm 200 150 110 (length categories) 0 categories
             (radar_header fm 400 300 200 150 110), []) = Inr (svg, points)"
    and doc: "doc = svg @ radar_polygon points @ ''</svg>''"
    by blast
  obtain x where x: "radar_axes fm 200 150 110 (length categories) 0 categories
      (radar_header fm 400 300 200 150 110) = radar_header fm 400 300 200 150 110 @ x"
    using radar_axes_extends by blast
  from radar_data_extends[OF d] obtain y where
    y: "svg = radar_axes fm 200 150 110 (length categories) 0 categories
          (radar_header fm 400 300 200 150 110) @ y"
    by blast
  obtain rest where
    h: \<open>radar_header fm 400 300 200 150 110 =
         ''<svg width="400" height="300" xmlns="http://www.w3.org/2000/svg">\<newline>            <s'' @ rest\<close>
    using radar_header_start by blast
  obtain rest' where
    2: \<open>default_radar_chart =
         ''<svg width="400" height="300" xmlns="http://www.w3.org/2000/svg">\<newline>            <r'' @ rest'\<close>
    using default_radar_chart_start by blast
  from y x have svg: "svg = radar_header fm 400 300 200 150 110 @ (x @ y)"
    by simp
  have 1: \<open>doc = ''<svg width="400" height="300" xmlns="http://www.w3.org/2000/svg">\<newline>            <s''
              @ (rest @ x @ y @ radar_polygon points @ ''</svg>'')\<close>
    unfolding doc svg h by simp
  show ?thesis unfolding 1 2 by simp
qed

lemma radar_score_radius_num:
  "num_val v = Some x \<Longrightarrow> radar_score_radius r v = Inr (real_of_int r * (x / 100))"
  by (simp add: radar_score_radius_def py_truediv_def)

lemma radar_data_points:
  "list_all2 (\<lambda>v x. num_val v = Some x) scores xs \<Longrightarrow>
   \<exists>body. radar_data fm cx cy r n i scores (svg, pts) =
     Inr (svg @ body,
          pts @ map (\<lambda>(j, x). point_text fm
                       (polar_point (real_of_int cx) (real_of_int cy) (real_of_int r * (x / 100))
                          (radar_angle j n)))
                  (enumerate i xs))"
proof (induction arbitrary: i svg pts rule: list_all2_induct)
  case Nil
  then show ?case by simp
next
  case (Cons v scores x xs)
  obtain svg1 where step:
    "radar_data fm cx cy r n i (v # scores) (svg, pts) =
       radar_data fm cx cy r n (Suc i) scores
         (svg @ svg1,
          pts @ [point_text fm (polar_point (real_of_int cx) (real_of_int cy)
                   (real_of_int r * (x / 100)) (radar_angle i n))])"
    using Cons.hyps(1)
    by (simp add: radar_score_radius_num Let_def point_text_def polar_point_def)
  from Cons.IH obtain body where
    "radar_data fm cx cy r n (Suc i) scores
         (svg @ svg1,
          pts @ [point_text fm (polar_point (real_of_int cx) (real_of_int cy)
                   (real_of_int r * (x / 100)) (radar_angle i n))])
     = Inr ((svg @ svg1) @ body,
            (pts @ [point_text fm (polar_point (real_of_int cx) (real_of_int cy)
                   (real_of_int r * (x / 100)) (radar_angle i n))])
            @ map (\<lambda>(j, x). point_text fm
                       (polar_point (real_of_int cx) (real_of_int cy) (real_of_int r * (x / 100))
                          (radar_angle j n)))
                  (enumerate (Suc i) xs))"
    by blast
  with step have
    "radar_data fm cx cy r n i (v # scores) (svg, pts) =
       Inr (svg @ (svg1 @ body),
            pts @ map (\<lambda>(j, x). point_text fm
                       (polar_point (real_of_int cx) (real_of_int cy) (real_of_int r * (x / 100))
                          (radar_angle j n)))
                  (enumerate i (x # xs)))"
    by simp
  then show ?case by blast
qed

lemma radar_scores_resolved:
  "map (rating_score kvs) (map fst rm) = map Some ss \<Longrightarrow>
   radar_scores (PDict kvs) rm = Inr (map PInt ss)"
proof (induction rm arbitrary: ss)
  case Nil
  then show ?case by simp
next
  case (Cons a rm)
  obtain key idx where a: "a = (key, idx)" by (cases a)
  from Cons.prems obtain s ss' where ss: "ss = s # ss'"
    and s: "rating_score kvs key = Some s"
    and rest: "map (rating_score kvs) (map fst rm) = map Some ss'"
    by (cases ss) (auto simp: a)
  from s have "ebind (if map_of kvs key \<noteq> None
            then ebind (py_getitem (PDict kvs) key) (\<lambda>rating. py_get rating ''score'' (PInt 75))
            else Inr (PInt 75)) f = f (PInt s)" for f :: "pyval \<Rightarrow> error + pyval list"
    by (auto simp: rating_score_def split: option.splits pyval.splits)
  with Cons.IH[OF rest] show ?case by (simp add: a ss)
qed

lemma num_val_PInt_list: "list_all2 (\<lambda>v x. num_val v = Some x) (map PInt ss) (map real_of_int ss)"
  by (induction ss) simp_all

lemma map_enumerate_map:
  "map f (enumerate i (map g ss)) = map (\<lambda>(j, s). f (j, g s)) (enumerate i ss)"
  by (induction ss arbitrary: i) simp_all

lemma radar_chart_resolved:
  assumes "kvs \<noteq> []" and "map (rating_score kvs) (map fst rating_map) = map Some ss"
  shows "\<exists>svg. generate_radar_chart fm (PDict kvs) =
           Inr (svg @ radar_polygon
                  (map (\<lambda>(j, s). point_text fm
                          (polar_point 200 150 (110 * (real_of_int s / 100)) (radar_angle j (length ss))))
                     (enumerate 0 ss)) @ ''</svg>'')"
proof -
  have scores: "radar_scores (PDict kvs) rating_map = Inr (map PInt ss)"
    using assms(2) by (rule radar_scores_resolved)
  from radar_data_points[OF num_val_PInt_list, of fm 200 150 110 "length (map PInt ss)" 0 ss
      "radar_axes fm 200 150 110 (length categories) 0 categories (radar_header fm 400 300 200 150 110)" "[]"]
  obtain body where
    "radar_data fm 200 150 110 (length (map PInt ss)) 0 (map PInt ss)
       (radar_axes fm 200 150 110 (length categories) 0 categories (radar_header fm 400 300 200 150 110), [])
     = Inr (radar_axes fm 200 150 110 (length categories) 0 categories (radar_header fm 400 300 200 150 110) @ body,
            map (\<lambda>(j, s). point_text fm
                          (polar_point 200 150 (110 * (real_of_int s / 100)) (radar_angle j (length ss))))
                     (enumerate 0 ss))"
    by (auto simp: map_enumerate_map)
  with scores assms(1) show ?thesis
    by (simp add: generate_radar_chart_def Let_def)
qed

section \<open>Radar chart: absent and empty ratings\<close>

text \<open>
  C2, as the claim states it, fails: an empty ratings mapping is falsy, so the guard
  \<^verbatim>\<open>if not ratings\<close> returns the placeholder for it, the same document as for \<^verbatim>\<open>None\<close>.
\<close>

theorem radar_empty_ratings_counterexample:
  "generate_radar_chart demo_fmt (PDict []) = Inr default_radar_chart"
  by (simp add: generate_radar_chart_def)

text \<open>
  C2, amended. The radar renderer returns the fixed placeholder document whenever the
  ratings value is falsy: \<^verbatim>\<open>None\<close>, an empty mapping, or (in the orchestrator) a missing
  \<^verbatim>\<open>ratings\<close> key, whose default is the empty mapping. Absent and empty ratings are not
  told apart. A ratings mapping that is not empty and holds none of the six category keys
  gives every category the default score 75 and renders the normal radar chart, which is
  not the placeholder.
\<close>

theorem radar_placeholder_unless_nonempty:
  "(\<not> truthy ratings \<longrightarrow> generate_radar_chart fm ratings = Inr default_radar_chart)
   \<and> \<not> truthy PNone \<and> \<not> truthy (PDict [])
   \<and> (map_of pd ''ratings'' = None \<longrightarrow>
        ebind (py_get (PDict pd) ''ratings'' (PDict [])) (generate_radar_chart fm) = Inr default_radar_chart)
   \<and> (kvs \<noteq> [] \<and> (\<forall>k \<in> set (map fst rating_map). map_of kvs k = None) \<longrightarrow>
        radar_scores (PDict kvs) rating_map = Inr (replicate 6 (PInt 75))
        \<and> (\<exists>doc. generate_radar_chart fm (PDict kvs) = Inr doc \<and> doc \<noteq> default_radar_chart))"
proof (intro conjI impI)
  show "generate_radar_chart fm ratings = Inr default_radar_chart" if "\<not> truthy ratings"
    using that by (simp add: generate_radar_chart_def)
  show "\<not> truthy PNone" and "\<not> truthy (PDict [])"
    by simp_all
  show "ebind (py_get (PDict pd) ''ratings'' (PDict [])) (generate_radar_chart fm) = Inr default_radar_chart"
    if "map_of pd ''ratings'' = None"
    using that by (simp add: generate_radar_chart_def)
next
  assume h: "kvs \<noteq> [] \<and> (\<forall>k \<in> set (map fst rating_map). map_of kvs k = None)"
  then have r: "map (rating_score kvs) (map fst rating_map) = map Some (replicate 6 75)"
    by (simp add: rating_map_def rating_score_def numeral_eq_Suc)
  from radar_scores_resolved[OF r]
  show "radar_scores (PDict kvs) rating_map = Inr (replicate 6 (PInt 75))"
    by simp
  from h radar_chart_resolved[OF _ r, of fm] obtain doc where
    doc: "generate_radar_chart fm (PDict kvs) = Inr doc"
    by blast
  from h have "truthy (PDict kvs)" by simp
  from radar_chart_not_default[OF this doc] doc
  show "\<exists>doc. generate_radar_chart fm (PDict kvs) = Inr doc \<and> doc \<noteq> default_radar_chart"
    by blast
qed

theorem radar_placeholder_unless_nonempty_witness:
  "generate_radar_chart demo_fmt PNone = Inr default_radar_chart
   \<and> radar_scores (PDict [(''walkability'', PDict [(''score'', PInt 60)])]) rating_map
       = Inr (replicate 6 (PInt 75))
   \<and> (\<exists>doc. generate_radar_chart demo_fmt (PDict [(''walkability'', PDict [(''score'', PInt 60)])]) = Inr doc
          \<and> doc \<noteq> default_radar_chart)"
  using radar_placeholder_unless_nonempty
    [where ratings = PNone and fm = demo_fmt and kvs = "[(''walkability'', PDict [(''score'', PInt 60)])]"]
  by (simp add: rating_map_def)

section \<open>Radar chart: the data polygon\<close>

text \<open>
  C3. Let a ratings mapping that is not empty give each of the six categories, looked up by
  its key (so in whatever order the mapping holds them), an integer score, the default 75
  standing for a category or a score that is missing. Then the renderer returns a document
  whose polygon has exactly six points, in the fixed order school quality, safety,
  transportation, amenities, investment potential, environment; the point of category \<open>i\<close>
  is the point at distance \<open>110 * score / 100\<close> from the centre \<open>(200, 150)\<close> in the
  direction \<open>2 * pi * i / 6 - pi / 2\<close>, where 110 is the outer radius
  \<open>min 200 150 - 40\<close>. (Floats are real numbers here: rounding is not modelled.)
\<close>

theorem radar_polygon_points:
  assumes "kvs \<noteq> []"
    and "map (rating_score kvs) (map fst rating_map) = map Some ss"
  shows \<open>length ss = 6
    \<and> map fst rating_map =
        [''school_quality'', ''safety'', ''transportation'', ''amenities'',
         ''investment_potential'', ''environment'']
    \<and> (\<exists>svg. generate_radar_chart fm (PDict kvs) =
          Inr (svg @ radar_polygon
                 (map (\<lambda>(i, s). point_text fm
                         (polar_point 200 150 (110 * (real_of_int s / 100)) (2 * pi * real i / 6 - pi / 2)))
                    (enumerate 0 ss)) @ ''</svg>''))
    \<and> has_segment ''<polygon points="'' (join_space points) ''" class="data-line"/>''
         (radar_polygon points)
    \<and> (fst (polar_point cx cy rho theta) - cx)\<^sup>2 + (snd (polar_point cx cy rho theta) - cy)\<^sup>2 = rho\<^sup>2\<close>
proof (intro conjI)
  from assms(2) have "length (map (rating_score kvs) (map fst rating_map)) = length (map Some ss)"
    by simp
  then show len: "length ss = 6"
    by (simp add: rating_map_def)
  show "map fst rating_map =
        [''school_quality'', ''safety'', ''transportation'', ''amenities'',
         ''investment_potential'', ''environment'']"
    by (simp add: rating_map_def)
  from radar_chart_resolved[OF assms, of fm] len
  show "\<exists>svg. generate_radar_chart fm (PDict kvs) =
          Inr (svg @ radar_polygon
                 (map (\<lambda>(i, s). point_text fm
                         (polar_point 200 150 (110 * (real_of_int s / 100)) (2 * pi * real i / 6 - pi / 2)))
                    (enumerate 0 ss)) @ ''</svg>'')"
    by (simp add: radar_angle_def)
  show \<open>has_segment ''<polygon points="'' (join_space points) ''" class="data-line"/>''
         (radar_polygon points)\<close>
    unfolding radar_polygon_def concat.simps
    by (rule has_segment_here | rule has_segment_skip)+
  have "(rho * cos theta)\<^sup>2 + (rho * sin theta)\<^sup>2 = rho\<^sup>2 * ((cos theta)\<^sup>2 + (sin theta)\<^sup>2)"
    by (simp only: power_mult_distrib distrib_left)
  also have "\<dots> = rho\<^sup>2"
    by simp
  finally have e: "(rho * cos theta)\<^sup>2 + (rho * sin theta)\<^sup>2 = rho\<^sup>2" .
  show "(fst (polar_point cx cy rho theta) - cx)\<^sup>2 + (snd (polar_point cx cy rho theta) - cy)\<^sup>2 = rho\<^sup>2"
    unfolding polar_point_def by (simp only: fst_conv snd_conv add_diff_cancel_left' e)
qed

theorem radar_polygon_points_witness:
  "\<exists>svg. generate_radar_chart demo_fmt
      (PDict [(''environment'', PDict [(''score'', PInt 90)]),
              (''safety'', PDict [(''score'', PInt 92)]),
              (''school_quality'', PDict [(''score'', PInt 85)]),
              (''amenities'', PDict [(''detail'', PStr ''shops'')]),
              (''investment_potential'', PDict [(''score'', PInt 82)])]) =
     Inr (svg @ radar_polygon
            (map (\<lambda>(i, s). point_text demo_fmt
                    (polar_point 200 150 (110 * (real_of_int s / 100)) (2 * pi * real i / 6 - pi / 2)))
               (enumerate 0 [85, 92, 75, 75, 82, 90])) @ ''</svg>'')"
  using radar_polygon_points
    [where fm = demo_fmt and ss = "[85, 92, 75, 75, 82, 90]"
       and kvs = "[(''environment'', PDict [(''score'', PInt 90)]),
              (''safety'', PDict [(''score'', PInt 92)]),
              (''school_quality'', PDict [(''score'', PInt 85)]),
              (''amenities'', PDict [(''detail'', PStr ''shops'')]),
              (''investment_potential'', PDict [(''score'', PInt 82)])]"]
  by (simp add: rating_map_def rating_score_def)

section \<open>The orchestrator on the inputs the specification names\<close>

text \<open>
  C1. The orchestrator raises on three inputs the claim names: a comparable sale without a
  \<^verbatim>\<open>price\<close> (KeyError from \<^verbatim>\<open>sale['price']\<close>), a \<^verbatim>\<open>ratings\<close> section that is \<^verbatim>\<open>None\<close>
  (AttributeError from \<^verbatim>\<open>.get\<close> on \<^verbatim>\<open>None\<close> when the gauge score is read), and prices that are
  all zero (ZeroDivisionError from the division by \<^verbatim>\<open>max_price\<close>).
\<close>

theorem generate_all_charts_raises:
  "generate_all_charts fm
     (PDict [(''valuation'', PDict [(''listing_price'', PInt 450000),
        (''comparable_sales'', PList [PDict [(''price_per_sqft'', PInt 225)]])])]) = Inl KeyError
   \<and> generate_all_charts fm (PDict [(''ratings'', PNone)]) = Inl AttributeError
   \<and> generate_all_charts fm
     (PDict [(''valuation'', PDict [(''listing_price'', PInt 0),
        (''comparable_sales'', PList [PDict [(''price'', PInt 0), (''price_per_sqft'', PInt 0)]])])])
       = Inl ZeroDivisionError"
  by (simp add: generate_all_charts_def generate_radar_chart_def generate_valuation_chart_def
      generate_price_comparison_def generate_market_trend_def trend_color_def
      py_truediv_def py_mul_float_def Let_def)

section \<open>Price per square foot comparison\<close>

lemma py_format_fixed0_num:
  "num_val v = Some x \<Longrightarrow> py_format_fixed0 fm v = Inr (float_fixed0 fm x)"
  by (cases v) (auto split: if_splits)

lemma py_getitem_each_fields:
  "list_all2 (sale_field key) cs xs \<Longrightarrow>
   \<exists>vs. py_getitem_each key cs = Inr vs \<and> list_all2 (\<lambda>v x. num_val v = Some x) vs xs"
proof (induction rule: list_all2_induct)
  case Nil
  then show ?case by simp
next
  case (Cons c cs x xs)
  from Cons.hyps(1) obtain v where "py_getitem c key = Inr v" "num_val v = Some x"
    by (auto simp: sale_field_def split: pyval.splits option.splits)
  with Cons.IH show ?case by auto
qed

lemma int_val_num_val: "int_val v = Some i \<Longrightarrow> num_val v = Some (real_of_int i)"
  by (cases v) (auto split: if_splits)

lemma py_sum_from_num:
  "list_all2 (\<lambda>v x. num_val v = Some x) vs xs \<Longrightarrow> num_val acc = Some a \<Longrightarrow>
   \<exists>t. py_sum_from acc vs = Inr t \<and> num_val t = Some (a + sum_list xs)"
proof (induction arbitrary: acc a rule: list_all2_induct)
  case Nil
  then show ?case by simp
next
  case (Cons v vs x xs)
  show ?case
  proof (cases "int_val acc")
    case None
    with Cons.prems Cons.hyps(1) have
      "py_sum_from acc (v # vs) = py_sum_from (PFloat (a + x)) vs"
      by simp
    with Cons.IH[of "PFloat (a + x)" "a + x"] show ?thesis
      by (simp add: add.assoc)
  next
    case (Some i)
    show ?thesis
    proof (cases "int_val v")
      case None
      with Some Cons.prems Cons.hyps(1) have
        "py_sum_from acc (v # vs) = py_sum_from (PFloat (a + x)) vs"
        by simp
      with Cons.IH[of "PFloat (a + x)" "a + x"] show ?thesis
        by (simp add: add.assoc)
    next
      case Some2: (Some j)
      from Some int_val_num_val Cons.prems have a: "a = real_of_int i" by fastforce
      from Some2 int_val_num_val Cons.hyps(1) have x: "x = real_of_int j" by fastforce
      from Some Some2 have
        "py_sum_from acc (v # vs) = py_sum_from (PInt (i + j)) vs"
        by simp
      with Cons.IH[of "PInt (i + j)" "a + x"] a x show ?thesis
        by (simp add: add.assoc)
    qed
  qed
qed

lemma price_bars_num:
  "list_all2 (\<lambda>v x. num_val v = Some x) vs xs \<Longrightarrow>
   \<exists>bars. price_bars fm i vs svg = Inr (svg @ bars)"
proof (induction arbitrary: i svg rule: list_all2_induct)
  case Nil
  then show ?case by simp
next
  case (Cons v vs x xs)
  from Cons.hyps(1) obtain bar where
    "price_bars fm i (v # vs) svg = price_bars fm (Suc i) vs (svg @ bar)"
    by (simp add: py_truediv_def py_format_fixed0_num Let_def)
  moreover from Cons.IH obtain bars where
    "price_bars fm (Suc i) vs (svg @ bar) = Inr ((svg @ bar) @ bars)"
    by blast
  ultimately have "price_bars fm i (v # vs) svg = Inr (svg @ (bar @ bars))"
    by simp
  then show ?case by blast
qed

lemma price_comparison_num:
  assumes "cs \<noteq> []" and "list_all2 (sale_field ''price_per_sqft'') cs xs"
    and "num_val current_price = Some p" and "num_val current_sqft = Some a" and "a \<noteq> 0"
  shows "\<exists>bars. generate_price_comparison fm (PList cs) current_price current_sqft =
           Inr (price_header fm (p / a) (sum_list xs / real (length xs)) @ bars @ ''</svg>'')"
proof -
  from py_getitem_each_fields[OF assms(2)] obtain vs where
    vs: "py_getitem_each ''price_per_sqft'' cs = Inr vs"
    and num: "list_all2 (\<lambda>v x. num_val v = Some x) vs xs"
    by blast
  from py_sum_from_num[OF num, of "PInt 0" 0] obtain t where
    t: "py_sum vs = Inr t" "num_val t = Some (sum_list xs)"
    by (auto simp: py_sum_def)
  from num have len: "length vs = length xs"
    by (rule list_all2_lengthD)
  from assms(1,2) have "xs \<noteq> []"
    by (auto dest: list_all2_lengthD)
  with t len have avg: "py_truediv t (PInt (int (length vs))) = Inr (sum_list xs / real (length xs))"
    by (simp add: py_truediv_def)
  from price_bars_num[OF num, of fm 0 "price_header fm (p / a) (sum_list xs / real (length xs))"]
  obtain bars where
    "price_bars fm 0 vs (price_header fm (p / a) (sum_list xs / real (length xs))) =
       Inr (price_header fm (p / a) (sum_list xs / real (length xs)) @ bars)"
    by blast
  with assms vs t avg show ?thesis
    by (simp add: generate_price_comparison_def py_eq_zero_def py_truediv_def)
qed

text \<open>
  C7. The price-per-area renderer returns the fixed placeholder document whenever the
  comparable list is falsy (empty) or the size equals zero, before any division. Otherwise,
  for a list of comparables that each carry a numeric \<^verbatim>\<open>price_per_sqft\<close> and for a numeric
  price and size, the document is built from the header filled with the current
  price per unit area \<open>price / size\<close> and with the arithmetic mean of the comparables'
  values; the header draws the line of class \<^verbatim>\<open>avg-line\<close> (styled with a
  \<^verbatim>\<open>stroke-dasharray\<close>) from \<open>x = 0\<close> to \<open>x = 400\<close> at the height \<open>100 - mean / 2\<close> on both
  ends, and prints the current value above the current bar. (Floats are real numbers
  here.)
\<close>

theorem price_comparison_placeholder_or_mean:
  \<open>(\<not> truthy comparables \<or> py_eq_zero current_sqft \<longrightarrow>
       generate_price_comparison fm comparables current_price current_sqft
         = Inr default_comparison_chart)
   \<and> (cs \<noteq> [] \<and> list_all2 (sale_field ''price_per_sqft'') cs xs
        \<and> num_val current_price = Some p \<and> num_val current_sqft = Some a \<and> a \<noteq> 0 \<longrightarrow>
       (\<exists>bars. generate_price_comparison fm (PList cs) current_price current_sqft =
          Inr (price_header fm (p / a) (sum_list xs / real (length xs)) @ bars @ ''</svg>'')))
   \<and> has_segment ''            <line x1="0" y1="'' (float_str fm (100 - avg_pps / 2))
        ''" x2="400" y2="'' (price_header fm current_pps avg_pps)
   \<and> has_segment ''" x2="400" y2="'' (float_str fm (100 - avg_pps / 2))
        ''" class="avg-line"/>\<newline>'' (price_header fm current_pps avg_pps)
   \<and> has_segment
        ''                .avg-line { stroke: #ed8936; stroke-width: 2; stroke-dasharray: 5,5; }\<newline>''
        [] [] (price_header fm current_pps avg_pps)
   \<and> has_segment ''            <text x="80" y="30" text-anchor="middle" class="value">$''
        (float_fixed0 fm current_pps) ''</text>\<newline>'' (price_header fm current_pps avg_pps)\<close>
proof (intro conjI impI)
  show "generate_price_comparison fm comparables current_price current_sqft
         = Inr default_comparison_chart"
    if "\<not> truthy comparables \<or> py_eq_zero current_sqft"
    using that by (auto simp: generate_price_comparison_def)
  show "\<exists>bars. generate_price_comparison fm (PList cs) current_price current_sqft =
          Inr (price_header fm (p / a) (sum_list xs / real (length xs)) @ bars @ ''</svg>'')"
    if "cs \<noteq> [] \<and> list_all2 (sale_field ''price_per_sqft'') cs xs
        \<and> num_val current_price = Some p \<and> num_val current_sqft = Some a \<and> a \<noteq> 0"
    using that price_comparison_num by blast
  show \<open>has_segment ''            <line x1="0" y1="'' (float_str fm (100 - avg_pps / 2))
        ''" x2="400" y2="'' (price_header fm current_pps avg_pps)\<close>
    unfolding price_header_def concat.simps
    by (rule has_segment_here | rule has_segment_skip)+
  show \<open>has_segment ''" x2="400" y2="'' (float_str fm (100 - avg_pps / 2))
        ''" class="avg-line"/>\<newline>'' (price_header fm current_pps avg_pps)\<close>
    unfolding price_header_def concat.simps
    by (rule has_segment_here | rule has_segment_skip)+
  show \<open>has_segment
        ''                .avg-line { stroke: #ed8936; stroke-width: 2; stroke-dasharray: 5,5; }\<newline>''
        [] [] (price_header fm current_pps avg_pps)\<close>
    unfolding price_header_def concat.simps
    by (rule has_text_here | rule has_segment_skip)+
  show \<open>has_segment ''            <text x="80" y="30" text-anchor="middle" class="value">$''
        (float_fixed0 fm current_pps) ''</text>\<newline>'' (price_header fm current_pps avg_pps)\<close>
    unfolding price_header_def concat.simps
    by (rule has_segment_here | rule has_segment_skip)+
qed

theorem price_comparison_placeholder_or_mean_witness:
  "generate_price_comparison demo_fmt
      (PList [PDict [(''price'', PInt 425000), (''price_per_sqft'', PInt 225)],
              PDict [(''price'', PInt 460000), (''price_per_sqft'', PInt 240)],
              PDict [(''price'', PInt 440000), (''price_per_sqft'', PInt 230)]])
      (PInt 450000) (PInt 0) = Inr default_comparison_chart
   \<and> generate_price_comparison demo_fmt (PList []) (PInt 450000) (PInt 2000)
       = Inr default_comparison_chart
   \<and> (\<exists>bars. generate_price_comparison demo_fmt
      (PList [PDict [(''price'', PInt 425000), (''price_per_sqft'', PInt 225)],
              PDict [(''price'', PInt 460000), (''price_per_sqft'', PInt 240)],
              PDict [(''price'', PInt 440000), (''price_per_sqft'', PInt 230)]])
      (PInt 450000) (PInt 2000) = Inr (price_header demo_fmt 225 (695 / 3) @ bars @ ''</svg>''))"
  using price_comparison_placeholder_or_mean
    [where fm = demo_fmt and current_price = "PInt 450000" and current_sqft = "PInt 0"
       and comparables = "PList [PDict [(''price'', PInt 425000), (''price_per_sqft'', PInt 225)],
              PDict [(''price'', PInt 460000), (''price_per_sqft'', PInt 240)],
              PDict [(''price'', PInt 440000), (''price_per_sqft'', PInt 230)]]"]
    price_comparison_placeholder_or_mean
    [where fm = demo_fmt and current_price = "PInt 450000" and current_sqft = "PInt 2000"
       and comparables = "PList []" and p = 450000 and a = 2000
       and xs = "[225, 240, 230]"
       and cs = "[PDict [(''price'', PInt 425000), (''price_per_sqft'', PInt 225)],
              PDict [(''price'', PInt 460000), (''price_per_sqft'', PInt 240)],
              PDict [(''price'', PInt 440000), (''price_per_sqft'', PInt 230)]]"]
  by (simp add: sale_field_def py_eq_zero_def)

section \<open>Out-of-range scores and divisors\<close>















section \<open>Valuation bar chart\<close>









section \<open>The same input gives the same output\<close>

lemma py_same_refl: "py_same v v"
proof (induction v)
  case (PList xs)
  then show ?case by (auto intro!: py_same.intros simp: list_all2_same)
next
  case (PDict kvs)
  have "rel_option py_same (map_of kvs k) (map_of kvs k)" for k
  proof (cases "map_of kvs k")
    case None
    then show ?thesis by simp
  next
    case (Some v)
    then have "(k, v) \<in> set kvs" by (rule map_of_SomeD)
    with PDict have "py_same v v" by fastforce
    with Some show ?thesis by simp
  qed
  then show ?case by (rule same_Dict)
qed (auto intro: py_same.intros)

lemma py_same_shape:
  assumes "py_same a b"
  shows "a = b
     \<or> (\<exists>xs ys. a = PList xs \<and> b = PList ys \<and> list_all2 py_same xs ys)
     \<or> (\<exists>kvs kvs'. a = PDict kvs \<and> b = PDict kvs'
           \<and> (\<forall>k. rel_option py_same (map_of kvs k) (map_of kvs' k)))"
  using assms by (cases rule: py_same.cases) auto

lemma py_same_num_val: "py_same a b \<Longrightarrow> num_val a = num_val b"
  by (cases rule: py_same.cases) auto

lemma py_same_int_val: "py_same a b \<Longrightarrow> int_val a = int_val b"
  by (cases rule: py_same.cases) auto

lemma py_same_hashable: "py_same a b \<Longrightarrow> hashable a = hashable b"
  by (cases rule: py_same.cases) auto

lemma py_same_numeric: "py_same a b \<Longrightarrow> num_val a = Some x \<Longrightarrow> b = a"
  by (cases rule: py_same.cases) auto

lemma py_same_hashable_eq: "py_same a b \<Longrightarrow> hashable a \<Longrightarrow> b = a"
  by (cases rule: py_same.cases) auto

lemma same_maps_empty:
  assumes "\<And>k. rel_option py_same (map_of kvs k) (map_of kvs' k)"
  shows "kvs = [] \<longleftrightarrow> kvs' = []"
proof -
  have "map_of kvs = Map.empty \<longleftrightarrow> map_of kvs' = Map.empty"
  proof
    assume e: "map_of kvs = Map.empty"
    show "map_of kvs' = Map.empty"
    proof
      fix k
      from assms[of k] e show "map_of kvs' k = None" by (cases "map_of kvs' k") auto
    qed
  next
    assume e: "map_of kvs' = Map.empty"
    show "map_of kvs = Map.empty"
    proof
      fix k
      from assms[of k] e show "map_of kvs k = None" by (cases "map_of kvs k") auto
    qed
  qed
  then show ?thesis by simp
qed

lemma py_same_truthy:
  assumes "py_same a b"
  shows "truthy a = truthy b"
  using assms
proof (cases rule: py_same.cases)
  case (same_Dict kvs kvs')
  with same_maps_empty[of kvs kvs'] show ?thesis by simp
qed auto

lemma py_same_Str_right: "py_same x (PStr k) \<Longrightarrow> x = PStr k"
  by (cases rule: py_same.cases) auto

lemma py_same_Str_left: "py_same (PStr k) y \<Longrightarrow> y = PStr k"
  by (cases rule: py_same.cases) auto

lemma same_list_member:
  "list_all2 py_same xs ys \<Longrightarrow> PStr k \<in> set xs \<longleftrightarrow> PStr k \<in> set ys"
  by (induction rule: list_all2_induct) (auto dest: py_same_Str_right py_same_Str_left)

lemma ebind_cong_eq: "m = m' \<Longrightarrow> (\<And>v. f v = g v) \<Longrightarrow> ebind m f = ebind m' g"
  by (cases m') simp_all

lemma ebind_cong_rel:
  "rel_sum (=) R m m' \<Longrightarrow> (\<And>v v'. R v v' \<Longrightarrow> f v = g v') \<Longrightarrow> ebind m f = ebind m' g"
  by (cases m; cases m') simp_all

lemma py_get_same:
  assumes "py_same a b" and "py_same d d'"
  shows "rel_sum (=) py_same (py_get a k d) (py_get b k d')"
  using assms(1)
proof (cases rule: py_same.cases)
  case (same_Dict kvs kvs')
  from same_Dict(3)[of k] assms(2) show ?thesis
    unfolding same_Dict(1,2)
    by (cases "map_of kvs k"; cases "map_of kvs' k") simp_all
qed simp_all

lemma py_getitem_same:
  assumes "py_same a b"
  shows "rel_sum (=) py_same (py_getitem a k) (py_getitem b k)"
  using assms
proof (cases rule: py_same.cases)
  case (same_Dict kvs kvs')
  from same_Dict(3)[of k] show ?thesis
    unfolding same_Dict(1,2)
    by (cases "map_of kvs k"; cases "map_of kvs' k") simp_all
qed simp_all

lemma py_in_same:
  assumes "py_same a b"
  shows "py_in k a = py_in k b"
  using assms
proof (cases rule: py_same.cases)
  case (same_List xs ys)
  then show ?thesis by (simp add: same_list_member)
next
  case (same_Dict kvs kvs')
  from same_Dict(3)[of k] show ?thesis
    unfolding same_Dict(1,2)
    by (cases "map_of kvs k"; cases "map_of kvs' k") simp_all
qed simp_all

lemma py_getitem_each_same:
  "list_all2 py_same xs ys \<Longrightarrow>
   rel_sum (=) (list_all2 py_same) (py_getitem_each k xs) (py_getitem_each k ys)"
proof (induction rule: list_all2_induct)
  case Nil
  then show ?case by simp
next
  case (Cons x xs y ys)
  from py_getitem_same[OF Cons.hyps(1), of k] Cons.IH show ?case
    by (cases "py_getitem x k"; cases "py_getitem y k";
        cases "py_getitem_each k xs"; cases "py_getitem_each k ys") simp_all
qed

lemma py_getitem_each_keys:
  "kvs \<noteq> [] \<Longrightarrow> py_getitem_each key (map (\<lambda>kv. PStr (fst kv)) kvs) = Inl TypeError"
  by (cases kvs) simp_all

text \<open>A truthy iterable whose items are then indexed by a string key: either both values
  are lists that agree item by item, or the two runs end the same way.\<close>

lemma iterate_items_same:
  assumes "py_same c c'" and "truthy c"
    and "\<And>xs ys vs ws. list_all2 py_same xs ys \<Longrightarrow> list_all2 py_same vs ws \<Longrightarrow> f xs vs = g ys ws"
  shows "ebind (py_iter c) (\<lambda>items. ebind (py_getitem_each key items) (f items))
       = ebind (py_iter c') (\<lambda>items. ebind (py_getitem_each key items) (g items))"
proof -
  from py_same_shape[OF assms(1)] consider
    (eq) "c = c'"
    | (list) xs ys where "c = PList xs" "c' = PList ys" "list_all2 py_same xs ys"
    | (dict) kvs kvs' where "c = PDict kvs" "c' = PDict kvs'"
        "\<forall>k. rel_option py_same (map_of kvs k) (map_of kvs' k)"
    by blast
  then show ?thesis
  proof cases
    case eq
    have "list_all2 py_same xs xs" for xs
      by (simp add: list_all2_same py_same_refl)
    with assms(3) have "f xs vs = g xs vs" for xs vs by blast
    then have "f = g" by (intro ext)
    with eq show ?thesis by simp
  next
    case list
    from py_getitem_each_same[OF list(3), of key] assms(3)[OF list(3)] show ?thesis
      unfolding list(1,2) by (simp add: ebind_cong_rel)
  next
    case dict
    from dict(1) assms(2) have "kvs \<noteq> []" by simp
    moreover with same_maps_empty[of kvs kvs'] dict(3) have "kvs' \<noteq> []" by blast
    ultimately show ?thesis
      unfolding dict(1,2) by (simp add: py_getitem_each_keys)
  qed
qed

lemma ebind_rel:
  "rel_sum (=) R m m' \<Longrightarrow> (\<And>v v'. R v v' \<Longrightarrow> rel_sum (=) S (f v) (g v')) \<Longrightarrow>
   rel_sum (=) S (ebind m f) (ebind m' g)"
  by (cases m; cases m') simp_all

lemma py_truediv_same:
  "py_same a a' \<Longrightarrow> py_same b b' \<Longrightarrow> py_truediv a b = py_truediv a' b'"
  by (simp add: py_truediv_def py_same_num_val)

lemma py_truediv_numeric: "py_truediv a b = Inr q \<Longrightarrow> \<exists>x. num_val a = Some x"
  by (auto simp: py_truediv_def split: option.splits)

lemma ebind_truediv_same:
  assumes "py_same p p'" and "\<And>q. p' = p \<Longrightarrow> f q = g q"
  shows "ebind (py_truediv p m) f = ebind (py_truediv p' m) g"
proof (cases "py_truediv p m")
  case (Inl e)
  from py_truediv_same[OF assms(1) py_same_refl, of m] have "py_truediv p' m = py_truediv p m"
    by simp
  then show ?thesis by (simp add: Inl)
next
  case (Inr q)
  from py_truediv_numeric[OF Inr] obtain x where "num_val p = Some x" by blast
  from py_same_numeric[OF assms(1) this] have pp: "p' = p" .
  with assms(2) have "f q = g q" for q by simp
  then have "f = g" by (rule ext)
  with pp show ?thesis by simp
qed

subsection \<open>Radar chart\<close>

lemma radar_scores_same:
  assumes "py_same a b"
  shows "rel_sum (=) (list_all2 py_same) (radar_scores a rm) (radar_scores b rm)"
proof (induction rm)
  case Nil
  then show ?case by simp
next
  case (Cons e rm)
  obtain key idx where e: "e = (key, idx)" by (cases e)
  have score: "rel_sum (=) py_same
      (if present then ebind (py_getitem a key) (\<lambda>rating. py_get rating ''score'' (PInt 75))
       else Inr (PInt 75))
      (if present then ebind (py_getitem b key) (\<lambda>rating. py_get rating ''score'' (PInt 75))
       else Inr (PInt 75))" for present
  proof (cases present)
    case True
    have "rel_sum (=) py_same
      (ebind (py_getitem a key) (\<lambda>rating. py_get rating ''score'' (PInt 75)))
      (ebind (py_getitem b key) (\<lambda>rating. py_get rating ''score'' (PInt 75)))"
      by (rule ebind_rel[where R = py_same], rule py_getitem_same, rule assms,
          rule py_get_same, assumption, rule py_same_refl)
    with True show ?thesis by simp
  next
    case False
    then show ?thesis by (simp add: py_same_refl)
  qed
  have rest: "rel_sum (=) (list_all2 py_same)
      (ebind (radar_scores a rm) (\<lambda>scores. Inr (s # scores)))
      (ebind (radar_scores b rm) (\<lambda>scores. Inr (s' # scores)))" if "py_same s s'" for s s'
    using Cons.IH that by (auto intro!: ebind_rel[where R = "list_all2 py_same"])
  show ?case
  proof (cases "py_in key b")
    case (Inl err)
    then show ?thesis
      unfolding e radar_scores.simps py_in_same[OF assms, of key] by simp
  next
    case (Inr present)
    show ?thesis
      unfolding e radar_scores.simps py_in_same[OF assms, of key] Inr ebind_Inr
      by (rule ebind_rel[where R = py_same], rule score, rule rest)
  qed
qed

lemma radar_score_radius_same: "py_same s s' \<Longrightarrow> radar_score_radius r s = radar_score_radius r s'"
  using py_truediv_same[of s s' "PInt 100" "PInt 100"] py_same_refl
  by (simp add: radar_score_radius_def)

lemma radar_score_radius_numeric: "radar_score_radius r s = Inr q \<Longrightarrow> \<exists>x. num_val s = Some x"
  by (auto simp: radar_score_radius_def py_truediv_def split: option.splits)

lemma radar_data_same:
  "list_all2 py_same ss ss' \<Longrightarrow>
   radar_data fm cx cy r n i ss st = radar_data fm cx cy r n i ss' st"
proof (induction arbitrary: i st rule: list_all2_induct)
  case Nil
  then show ?case by simp
next
  case (Cons s ss s' ss')
  obtain svg pts where st: "st = (svg, pts)" by (cases st)
  show ?case
  proof (cases "radar_score_radius r s")
    case (Inl e)
    from radar_score_radius_same[OF Cons.hyps(1), of r]
    have "radar_score_radius r s' = radar_score_radius r s" by simp
    then show ?thesis
      by (simp add: st Inl)
  next
    case (Inr q)
    from radar_score_radius_numeric[OF Inr] obtain x where "num_val s = Some x" by blast
    from py_same_numeric[OF Cons.hyps(1) this] have "s' = s" .
    with Inr Cons.IH show ?thesis
      by (simp add: st Let_def)
  qed
qed

lemma generate_radar_chart_same:
  assumes "py_same a b"
  shows "generate_radar_chart fm a = generate_radar_chart fm b"
proof -
  have cont: "f scores = g scores'" if "list_all2 py_same scores scores'"
    and f: "f = (\<lambda>scores.
        let svg_width = 400;
            svg_height = 300;
            center_x = svg_width div 2;
            center_y = svg_height div 2;
            radius = min center_x center_y - 40;
            svg = radar_header fm svg_width svg_height center_x center_y radius;
            svg = radar_axes fm center_x center_y radius (length categories) 0 categories svg
        in ebind (radar_data fm center_x center_y radius (length scores) 0 scores (svg, []))
             (\<lambda>(svg, points). Inr (svg @ radar_polygon points @ ''</svg>'')))" and g: "g = f"
    for f g :: "pyval list \<Rightarrow> error + string" and scores scores'
  proof -
    from that(1) have "length scores = length scores'" by (rule list_all2_lengthD)
    with radar_data_same[OF that(1)] show ?thesis
      unfolding g f Let_def by simp
  qed
  from radar_scores_same[OF assms, of rating_map] py_same_truthy[OF assms] show ?thesis
    unfolding generate_radar_chart_def
    by (auto intro!: ebind_cong_rel[where R = "list_all2 py_same"] cont)
qed

subsection \<open>Valuation bar chart\<close>

lemma py_max_from_same:
  "list_all2 py_same xs ys \<Longrightarrow> py_same m m' \<Longrightarrow> py_max_from m xs = py_max_from m' ys"
proof (induction arbitrary: m m' rule: list_all2_induct)
  case Nil
  show ?case
  proof (cases "num_val m")
    case None
    with py_same_num_val[OF Nil] show ?thesis by simp
  next
    case (Some a)
    from py_same_numeric[OF Nil Some] show ?thesis by simp
  qed
next
  case (Cons x xs y ys)
  show ?case
  proof (cases "num_val m")
    case None
    with py_same_num_val[OF Cons.prems] show ?thesis by simp
  next
    case (Some a)
    from py_same_numeric[OF Cons.prems Some] have m: "m' = m" .
    show ?thesis
    proof (cases "num_val x")
      case None
      with py_same_num_val[OF Cons.hyps(1)] Some m show ?thesis by simp
    next
      case Some2: (Some b)
      from py_same_numeric[OF Cons.hyps(1) Some2] have "y = x" .
      with m Some Some2 Cons.IH[OF py_same_refl] show ?thesis by simp
    qed
  qed
qed

lemma py_max_same: "list_all2 py_same xs ys \<Longrightarrow> py_max xs = py_max ys"
  by (cases xs; cases ys) (auto intro: py_max_from_same)

lemma valuation_bars_same:
  "list_all2 py_same sales sales' \<Longrightarrow>
   valuation_bars fm h pad bw sp mp i sales svg = valuation_bars fm h pad bw sp mp i sales' svg"
proof (induction arbitrary: i svg rule: list_all2_induct)
  case Nil
  then show ?case by simp
next
  case (Cons s ss s' ss')
  have "ebind (py_truediv p mp) (\<lambda>q. let height = q * 150; y = real_of_int h - 50 - height in
          ebind (py_format_comma fm p) (\<lambda>price_text.
            valuation_bars fm h pad bw sp mp (Suc i) ss (svg @ comparable_bar fm h bw i x y height price_text)))
      = ebind (py_truediv p' mp) (\<lambda>q. let height = q * 150; y = real_of_int h - 50 - height in
          ebind (py_format_comma fm p') (\<lambda>price_text.
            valuation_bars fm h pad bw sp mp (Suc i) ss' (svg @ comparable_bar fm h bw i x y height price_text)))"
    if "py_same p p'" for p p' x
    using that by (rule ebind_truediv_same) (simp add: Cons.IH)
  with py_getitem_same[OF Cons.hyps(1), of "''price''"] show ?case
    unfolding valuation_bars.simps Let_def
    by (intro ebind_cong_rel[where R = py_same]) (simp_all add: Let_def)
qed

lemma valuation_rest_same:
  assumes ab: "py_same a b" and xs: "list_all2 py_same xs ys" and vs: "list_all2 py_same vs ws"
  shows "ebind (py_get a ''listing_price'' (PInt 0)) (\<lambda>listing_price.
           ebind (py_max (vs @ [listing_price])) (\<lambda>max_price.
           ebind (valuation_y_labels fm H P max_price L S) (\<lambda>svg.
           ebind (py_get a ''listing_price'' (PInt 0)) (\<lambda>current_price.
           ebind (py_truediv current_price max_price) (\<lambda>q.
           ebind (py_format_comma fm current_price) (\<lambda>price_text.
           ebind (valuation_bars fm H P W sp max_price 0 xs (svg @ LB q price_text))
             (\<lambda>svg. Inr (svg @ E))))))))
       = ebind (py_get b ''listing_price'' (PInt 0)) (\<lambda>listing_price.
           ebind (py_max (ws @ [listing_price])) (\<lambda>max_price.
           ebind (valuation_y_labels fm H P max_price L S) (\<lambda>svg.
           ebind (py_get b ''listing_price'' (PInt 0)) (\<lambda>current_price.
           ebind (py_truediv current_price max_price) (\<lambda>q.
           ebind (py_format_comma fm current_price) (\<lambda>price_text.
           ebind (valuation_bars fm H P W sp max_price 0 ys (svg @ LB q price_text))
             (\<lambda>svg. Inr (svg @ E))))))))"
proof (rule ebind_cong_rel[where R = py_same])
  show "rel_sum (=) py_same (py_get a ''listing_price'' (PInt 0)) (py_get b ''listing_price'' (PInt 0))"
    by (rule py_get_same[OF ab py_same_refl])
next
  fix l l' assume ll: "py_same l l'"
  from vs ll have "list_all2 py_same (vs @ [l]) (ws @ [l'])"
    by (simp add: list_all2_appendI)
  then have mx: "py_max (vs @ [l]) = py_max (ws @ [l'])"
    by (rule py_max_same)
  show "ebind (py_max (vs @ [l])) (\<lambda>max_price.
           ebind (valuation_y_labels fm H P max_price L S) (\<lambda>svg.
           ebind (py_get a ''listing_price'' (PInt 0)) (\<lambda>current_price.
           ebind (py_truediv current_price max_price) (\<lambda>q.
           ebind (py_format_comma fm current_price) (\<lambda>price_text.
           ebind (valuation_bars fm H P W sp max_price 0 xs (svg @ LB q price_text))
             (\<lambda>svg. Inr (svg @ E)))))))
       = ebind (py_max (ws @ [l'])) (\<lambda>max_price.
           ebind (valuation_y_labels fm H P max_price L S) (\<lambda>svg.
           ebind (py_get b ''listing_price'' (PInt 0)) (\<lambda>current_price.
           ebind (py_truediv current_price max_price) (\<lambda>q.
           ebind (py_format_comma fm current_price) (\<lambda>price_text.
           ebind (valuation_bars fm H P W sp max_price 0 ys (svg @ LB q price_text))
             (\<lambda>svg. Inr (svg @ E)))))))"
  proof (rule ebind_cong_eq[OF mx], rule ebind_cong_eq[OF refl], rule ebind_cong_rel[where R = py_same])
    show "rel_sum (=) py_same (py_get a ''listing_price'' (PInt 0)) (py_get b ''listing_price'' (PInt 0))"
      by (rule py_get_same[OF ab py_same_refl])
  next
    fix mp svg cp cp' assume cc: "py_same cp cp'"
    show "ebind (py_truediv cp mp) (\<lambda>q.
           ebind (py_format_comma fm cp) (\<lambda>price_text.
           ebind (valuation_bars fm H P W sp mp 0 xs (svg @ LB q price_text))
             (\<lambda>svg. Inr (svg @ E))))
       = ebind (py_truediv cp' mp) (\<lambda>q.
           ebind (py_format_comma fm cp') (\<lambda>price_text.
           ebind (valuation_bars fm H P W sp mp 0 ys (svg @ LB q price_text))
             (\<lambda>svg. Inr (svg @ E))))"
      using cc by (rule ebind_truediv_same) (simp add: valuation_bars_same[OF xs])
  qed
qed

lemma generate_valuation_chart_same:
  assumes "py_same a b"
  shows "generate_valuation_chart fm a = generate_valuation_chart fm b"
  unfolding generate_valuation_chart_def Let_def
  apply (rule ebind_cong_rel[where R = py_same])
   apply (rule py_get_same[OF assms py_same_refl])
  subgoal premises cc for c c'
  proof (cases "truthy c")
    case False
    with py_same_truthy[OF cc] show ?thesis by simp
  next
    case True
    with py_same_truthy[OF cc] have t': "truthy c'" by simp
    from True t' have nn: "\<not> \<not> truthy c" "\<not> \<not> truthy c'" by simp_all
    show ?thesis
      unfolding if_not_P[OF nn(1)] if_not_P[OF nn(2)]
      apply (rule iterate_items_same[OF cc True])
      subgoal premises p for xs ys vs ws
        unfolding list_all2_lengthD[OF p(1)]
        by (rule valuation_rest_same[OF assms p])
      done
  qed
  done

subsection \<open>Price per square foot comparison\<close>

lemma py_sum_from_same:
  "list_all2 py_same xs ys \<Longrightarrow> py_sum_from acc xs = py_sum_from acc ys"
proof (induction arbitrary: acc rule: list_all2_induct)
  case Nil
  then show ?case by simp
next
  case (Cons x xs y ys)
  from py_same_int_val[OF Cons.hyps(1)] py_same_num_val[OF Cons.hyps(1)] Cons.IH
  show ?case by (auto split: option.splits)
qed

lemma price_bars_same:
  "list_all2 py_same vs ws \<Longrightarrow> price_bars fm i vs svg = price_bars fm i ws svg"
proof (induction arbitrary: i svg rule: list_all2_induct)
  case Nil
  then show ?case by simp
next
  case (Cons v vs w ws)
  have "ebind (py_truediv v (PInt 2)) (\<lambda>height. ebind (py_format_fixed0 fm v) (\<lambda>pps_text.
          price_bars fm (Suc i) vs (svg @ price_bar fm i x (100 - height) height pps_text)))
      = ebind (py_truediv w (PInt 2)) (\<lambda>height. ebind (py_format_fixed0 fm w) (\<lambda>pps_text.
          price_bars fm (Suc i) ws (svg @ price_bar fm i x (100 - height) height pps_text)))" for x
    using Cons.hyps(1) by (rule ebind_truediv_same) (simp add: Cons.IH)
  then show ?case
    by (simp add: Let_def)
qed

lemma generate_price_comparison_same:
  assumes c: "py_same c c'" and p: "py_same p p'" and a: "py_same a a'"
  shows "generate_price_comparison fm c p a = generate_price_comparison fm c' p' a'"
proof (cases "\<not> truthy c \<or> py_eq_zero a")
  case True
  with py_same_truthy[OF c] py_same_num_val[OF a] show ?thesis
    by (simp add: generate_price_comparison_def py_eq_zero_def)
next
  case False
  with py_same_truthy[OF c] py_same_num_val[OF a]
  have g: "\<not> (\<not> truthy c \<or> py_eq_zero a)" "\<not> (\<not> truthy c' \<or> py_eq_zero a')" and t: "truthy c"
    by (simp_all add: py_eq_zero_def)
  have rest: "ebind (py_sum vs) (\<lambda>total.
      ebind (py_truediv total (PInt (int (length vs)))) (\<lambda>avg_pps.
      ebind (price_bars fm 0 vs (price_header fm pps avg_pps)) (\<lambda>svg. Inr (svg @ ''</svg>''))))
    = ebind (py_sum ws) (\<lambda>total.
      ebind (py_truediv total (PInt (int (length ws)))) (\<lambda>avg_pps.
      ebind (price_bars fm 0 ws (price_header fm pps avg_pps)) (\<lambda>svg. Inr (svg @ ''</svg>''))))"
    if "list_all2 py_same vs ws" for vs ws pps
    using py_sum_from_same[OF that, of "PInt 0"] list_all2_lengthD[OF that] price_bars_same[OF that]
    by (simp add: py_sum_def)
  have iter: "ebind (py_iter c) (\<lambda>cs. ebind (py_getitem_each ''price_per_sqft'' cs) (\<lambda>comp_pps.
      ebind (py_sum comp_pps) (\<lambda>total.
      ebind (py_truediv total (PInt (int (length comp_pps)))) (\<lambda>avg_pps.
      ebind (price_bars fm 0 comp_pps (price_header fm pps avg_pps)) (\<lambda>svg. Inr (svg @ ''</svg>''))))))
    = ebind (py_iter c') (\<lambda>cs. ebind (py_getitem_each ''price_per_sqft'' cs) (\<lambda>comp_pps.
      ebind (py_sum comp_pps) (\<lambda>total.
      ebind (py_truediv total (PInt (int (length comp_pps)))) (\<lambda>avg_pps.
      ebind (price_bars fm 0 comp_pps (price_header fm pps avg_pps)) (\<lambda>svg. Inr (svg @ ''</svg>''))))))"
    for pps
    by (rule iterate_items_same[OF c t]) (rule rest)
  show ?thesis
    unfolding generate_price_comparison_def if_not_P[OF g(1)] if_not_P[OF g(2)]
      py_truediv_same[OF p a]
    by (rule ebind_cong_eq[OF refl]) (rule iter)
qed

subsection \<open>Trend indicator and gauge\<close>

lemma generate_market_trend_same:
  assumes "py_same t t'"
  shows "generate_market_trend fm t = generate_market_trend fm t'"
proof (cases "hashable t")
  case True
  from py_same_hashable_eq[OF assms True] show ?thesis by simp
next
  case False
  with py_same_hashable[OF assms] show ?thesis
    by (simp add: generate_market_trend_def trend_color_def)
qed

lemma generate_investment_gauge_same:
  assumes "py_same s s'"
  shows "generate_investment_gauge fm s = generate_investment_gauge fm s'"
proof (cases "num_val s")
  case None
  with py_same_num_val[OF assms] show ?thesis
    by (simp add: generate_investment_gauge_def score_to_color_def py_ge_def)
next
  case (Some x)
  from py_same_numeric[OF assms Some] show ?thesis by simp
qed

subsection \<open>The orchestrator\<close>

lemma generate_all_charts_same:
  assumes ab: "py_same a b"
  shows "generate_all_charts fm a = generate_all_charts fm b"
proof -
  note get = py_get_same[OF _ py_same_refl]
  have gauge: "ebind (py_get r ''investment_potential'' (PDict [])) (\<lambda>investment.
        ebind (py_get investment ''score'' (PInt 75)) (\<lambda>score.
        ebind (generate_investment_gauge fm score) K))
      = ebind (py_get r' ''investment_potential'' (PDict [])) (\<lambda>investment.
        ebind (py_get investment ''score'' (PInt 75)) (\<lambda>score.
        ebind (generate_investment_gauge fm score) K))" if "py_same r r'"
    for r r' and K :: "string \<Rightarrow> error + (string \<times> string) list"
    apply (rule ebind_cong_rel[where R = py_same], rule get[OF that])
    apply (rule ebind_cong_rel[where R = py_same], erule get)
    apply (rule ebind_cong_eq[OF generate_investment_gauge_same], assumption, rule refl)
    done
  have trend: "ebind (py_get v ''price_trend'' (PStr ''Stable'')) (\<lambda>trend.
        ebind (generate_market_trend fm trend) K)
      = ebind (py_get v' ''price_trend'' (PStr ''Stable'')) (\<lambda>trend.
        ebind (generate_market_trend fm trend) K')" if "py_same v v'" and "\<And>m. K m = K' m"
    for v v' and K K' :: "string \<Rightarrow> error + (string \<times> string) list"
    apply (rule ebind_cong_rel[where R = py_same], rule get[OF that(1)])
    apply (rule ebind_cong_eq[OF generate_market_trend_same], assumption, rule that(2))
    done
  show ?thesis
    unfolding generate_all_charts_def
    apply (rule ebind_cong_rel[where R = py_same], rule get[OF ab])
    apply (rule ebind_cong_eq[OF generate_radar_chart_same], assumption)
    apply (rule ebind_cong_rel[where R = py_same], rule get[OF ab])
    apply (rule ebind_cong_eq[OF generate_valuation_chart_same], assumption)
    apply (rule ebind_cong_rel[where R = py_same], rule get[OF ab])
    apply (rule ebind_cong_rel[where R = py_same], erule get)
    apply (rule ebind_cong_rel[where R = py_same], rule get[OF ab])
    apply (rule ebind_cong_rel[where R = py_same], rule get[OF ab])
    apply (rule ebind_cong_eq[OF generate_price_comparison_same], assumption+)
    apply (rule ebind_cong_rel[where R = py_same], rule get[OF ab])
    apply (rule trend, assumption)
    apply (rule ebind_cong_rel[where R = py_same], rule get[OF ab])
    apply (rule gauge, assumption)
    done
qed

text \<open>
  C10. The module reads nothing but its argument: it keeps no state, and it calls neither a
  clock nor a random source (\<^verbatim>\<open>datetime\<close> is imported and never used), so the model of
  \<^verbatim>\<open>generate_all_charts\<close> is a function of the input record alone. What can still differ
  between two calls with the same input is how the input's dictionaries are laid out, and
  the output does not depend on it: two inputs that are the same Python value, whatever the
  insertion order of their dictionaries, give the same result, document for document and
  error for error. Every input is the same value as itself.
\<close>

theorem generate_all_charts_deterministic:
  "(py_same d1 d2 \<longrightarrow> generate_all_charts fm d1 = generate_all_charts fm d2) \<and> py_same d d"
  by (simp add: generate_all_charts_same py_same_refl)

theorem generate_all_charts_deterministic_witness:
  "generate_all_charts demo_fmt
     (PDict [(''price'', PInt 450000), (''sqft'', PInt 2000),
             (''ratings'', PDict [(''safety'', PDict [(''score'', PInt 92)]),
                                  (''school_quality'', PDict [(''score'', PInt 85)])]),
             (''valuation'', PDict [(''listing_price'', PInt 450000),
                (''comparable_sales'', PList [PDict [(''price'', PInt 425000), (''price_per_sqft'', PInt 225)]]),
                (''price_trend'', PStr ''Rising'')])])
   = generate_all_charts demo_fmt
     (PDict [(''valuation'', PDict [(''price_trend'', PStr ''Rising''),
                (''comparable_sales'', PList [PDict [(''price_per_sqft'', PInt 225), (''price'', PInt 425000)]]),
                (''listing_price'', PInt 450000)]),
             (''ratings'', PDict [(''school_quality'', PDict [(''score'', PInt 85)]),
                                  (''safety'', PDict [(''score'', PInt 92)])]),
             (''sqft'', PInt 2000), (''price'', PInt 450000)])"
proof -
  have ratings: "py_same
      (PDict [(''safety'', PDict [(''score'', PInt 92)]),
              (''school_quality'', PDict [(''score'', PInt 85)])])
      (PDict [(''school_quality'', PDict [(''score'', PInt 85)]),
              (''safety'', PDict [(''score'', PInt 92)])])"
    by (rule same_Dict) (simp add: py_same_refl)
  have sale: "py_same
      (PDict [(''price'', PInt 425000), (''price_per_sqft'', PInt 225)])
      (PDict [(''price_per_sqft'', PInt 225), (''price'', PInt 425000)])"
    by (rule same_Dict) (simp add: py_same_refl)
  then have sales: "py_same
      (PList [PDict [(''price'', PInt 425000), (''price_per_sqft'', PInt 225)]])
      (PList [PDict [(''price_per_sqft'', PInt 225), (''price'', PInt 425000)]])"
    by (intro same_List) simp
  have valuation: "py_same
      (PDict [(''listing_price'', PInt 450000),
              (''comparable_sales'', PList [PDict [(''price'', PInt 425000), (''price_per_sqft'', PInt 225)]]),
              (''price_trend'', PStr ''Rising'')])
      (PDict [(''price_trend'', PStr ''Rising''),
              (''comparable_sales'', PList [PDict [(''price_per_sqft'', PInt 225), (''price'', PInt 425000)]]),
              (''listing_price'', PInt 450000)])"
    by (rule same_Dict) (simp add: py_same_refl sales)
  have same: "py_same
     (PDict [(''price'', PInt 450000), (''sqft'', PInt 2000),
             (''ratings'', PDict [(''safety'', PDict [(''score'', PInt 92)]),
                                  (''school_quality'', PDict [(''score'', PInt 85)])]),
             (''valuation'', PDict [(''listing_price'', PInt 450000),
                (''comparable_sales'', PList [PDict [(''price'', PInt 425000), (''price_per_sqft'', PInt 225)]]),
                (''price_trend'', PStr ''Rising'')])])
     (PDict [(''valuation'', PDict [(''price_trend'', PStr ''Rising''),
                (''comparable_sales'', PList [PDict [(''price_per_sqft'', PInt 225), (''price'', PInt 425000)]]),
                (''listing_price'', PInt 450000)]),
             (''ratings'', PDict [(''school_quality'', PDict [(''score'', PInt 85)]),
                                  (''safety'', PDict [(''score'', PInt 92)])]),
             (''sqft'', PInt 2000), (''price'', PInt 450000)])"
    by (rule same_Dict) (simp add: py_same_refl ratings valuation)
  show ?thesis
    by (rule mp[OF conjunct1[OF generate_all_charts_deterministic] same])
qed

end
